theory Spec2Isabelle
  imports Main
begin

section \<open>Data model of the bookmark file\<close>

text \<open>
  Go strings are byte sequences; \<open>string\<close> (a list of 8-bit characters) models
  them, and \<open>length\<close> is Go's \<open>len\<close>.

  \<open>BookmarkItem\<close> is the recursive struct of \<^verbatim>\<open>main.go\<close>: a node of the
  bookmark tree with its fields in the order of the source. The other structs are
  records; a field name that another struct already uses carries a suffix.
\<close>

datatype BookmarkItem =
  BookmarkItem (DateAdded: string) (ID: string) (Name: string) (Type: string)
    (URL: string) (Children: "BookmarkItem list")

record BookmarkFolder =
  Children_f :: "BookmarkItem list"
  DateAdded_f :: string
  DateModified_f :: string
  ID_f :: string
  Name_f :: string
  Type_f :: string

record Roots =
  BookmarkBar :: BookmarkFolder
  Other :: BookmarkFolder
  Synced :: BookmarkFolder

record Bookmarks =
  Roots :: Roots
  Version :: int
  Checksum :: string

record BookmarkRecord =
  Name_r :: string
  URL_r :: string

section \<open>The extractor\<close>

text \<open>
  \<open>extractBookmarks\<close> is the loop of the source over \<open>items\<close>: the result of one
  item (the item itself when its type is \<open>url\<close>, the extraction of its children when it
  is a \<open>folder\<close> with at least one child, nothing otherwise) is appended to the
  result, and the loop goes on with the next item.
\<close>

fun extractBookmarks :: "BookmarkItem list \<Rightarrow> BookmarkItem list" where
  "extractBookmarks [] = []"
| "extractBookmarks (BookmarkItem d i n t u cs # items) =
     (if t = ''url'' then [BookmarkItem d i n t u cs]
      else if t = ''folder'' \<and> length cs > 0 then extractBookmarks cs
      else [])
     @ extractBookmarks items"

text \<open>
  The specification's wording of the same result, for comparison: the nodes
  \<^emph>\<open>reachable\<close> from a node are the node itself and, when it is a folder, the nodes
  reachable from its children, listed depth first, in pre-order, from left to right; the
  extracted bookmarks are the reachable nodes of type \<open>url\<close>.
\<close>

fun reachable :: "BookmarkItem \<Rightarrow> BookmarkItem list" where
  "reachable (BookmarkItem d i n t u cs) =
     BookmarkItem d i n t u cs # (if t = ''folder'' then concat (map reachable cs) else [])"

definition url_leaves :: "BookmarkItem list \<Rightarrow> BookmarkItem list" where
  "url_leaves items = filter (\<lambda>n. Type n = ''url'') (concat (map reachable items))"

section \<open>The environment: JSON documents, files, the database engine\<close>

text \<open>
  The program reads an environment variable and a file, and keeps its result in an
  SQLite database file. These are not code of \<^verbatim>\<open>main.go\<close>; what the source
  relies on is written down here once, and the functions of the source are translated
  on top of it.

  A JSON document is given by its syntax tree. A number is an integer literal or a
  literal with a fraction or an exponent (which \<^verbatim>\<open>encoding/json\<close> refuses for an
  \<open>int\<close> field, whatever its value).
\<close>

datatype jnumber = IntLit int | FracLit

datatype json =
  JNull | JBool bool | JNumber jnumber | JString string
  | JArray "json list" | JObject "(string \<times> json) list"

text \<open>
  A table has the columns of its \<^verbatim>\<open>CREATE TABLE\<close> statement and its rows in rowid
  order. Only tables whose rows are a name and a url are represented.
\<close>

record column =
  col_name :: string
  col_type :: string
  col_notnull :: bool
  col_pk :: bool

record table =
  columns :: "column list"
  rows :: "(string \<times> string) list"

text \<open>
  A file is a database file (with or without the table \<open>bookmarks\<close>; an empty file is
  a database without tables) or any other file, given by what the JSON syntax check
  makes of its bytes (\<open>None\<close>: not a JSON document).
\<close>

datatype filedata = Sqlite "table option" | Plain "json option"

text \<open>
  Operations of the environment that can fail for reasons outside the program (a locked
  file, a full disk): the world says which of them fail in this run. \<open>OpInsert k\<close>,
  \<open>OpNext k\<close> and \<open>OpScan k\<close> are the operation on the \<open>k\<close>-th record of a batch or a
  result set, counted from 0.
\<close>

datatype op =
  OpStat | OpReadFile | OpRemove | OpOpen | OpCreateTable | OpPrepare | OpInsert nat
  | OpQuery | OpNext nat | OpScan nat

datatype cause = Fault op | NotExist | NotADatabase | NoSuchTable | NoSuchColumn

datatype json_error = SyntaxError | UnmarshalTypeError string

text \<open>
  The errors of the program: one constructor for each \<^verbatim>\<open>fmt.Errorf\<close> of the source,
  wrapping its cause where the source wraps it with \<^verbatim>\<open>%w\<close>.
\<close>

datatype error =
  ErrUserProfile
  | ErrBookmarksNotFound string
  | ErrReadFile cause
  | ErrParseJSON json_error
  | ErrRemoveDB cause
  | ErrOpenDB cause
  | ErrCreateTable cause
  | ErrPrepare cause
  | ErrInsert cause
  | ErrQuery cause
  | ErrScan cause
  | ErrRows cause
  | ErrGetBookmarks error

text \<open>
  What a run does to the outside is a trace of events: a call of \<^verbatim>\<open>fmt.Println\<close>,
  \<^verbatim>\<open>fmt.Printf\<close> or the logger with its format and arguments (the rendering of a
  format is left to \<^verbatim>\<open>fmt\<close>), \<^verbatim>\<open>Close\<close> on the database handle of a path, and
  the end of the process with its exit status.
\<close>

datatype arg = S string | D int | V error

datatype event =
  Println string | Printf string "arg list" | LogPrintf string "arg list"
  | DbClose string | Exit int

record world =
  environ :: "string \<Rightarrow> string"
  filepath_Join :: "string list \<Rightarrow> string"
  files :: "string \<Rightarrow> filedata option"
  fault :: "op \<Rightarrow> bool"
  trace :: "event list"

record DB =
  db_path :: string

definition emit :: "world \<Rightarrow> event list \<Rightarrow> world" where
  "emit w es = w\<lparr>trace := trace w @ es\<rparr>"

text \<open>The world with the file at a path replaced (\<open>None\<close>: with no file there).\<close>

definition write_file :: "world \<Rightarrow> string \<Rightarrow> filedata option \<Rightarrow> world" where
  "write_file w p f = w\<lparr>files := (files w)(p := f)\<rparr>"

definition os_Getenv :: "world \<Rightarrow> string \<Rightarrow> string" where
  "os_Getenv w k = environ w k"

text \<open>
  The error of \<^verbatim>\<open>os.Stat\<close>: none when something is at the path; when nothing is
  there, the error for which \<^verbatim>\<open>os.IsNotExist\<close> holds, or, when the world makes the
  call fail (a name that is too long, a directory that may not be searched), an error
  of another kind.
\<close>

definition os_Stat :: "world \<Rightarrow> string \<Rightarrow> cause option" where
  "os_Stat w p =
     (if files w p \<noteq> None then None
      else if fault w OpStat then Some (Fault OpStat)
      else Some NotExist)"

definition os_Remove :: "world \<Rightarrow> string \<Rightarrow> cause + world" where
  "os_Remove w p =
     (if fault w OpRemove then Inl (Fault OpRemove)
      else if files w p = None then Inl NotExist
      else Inr (write_file w p None))"

definition os_ReadFile :: "world \<Rightarrow> string \<Rightarrow> cause + json option" where
  "os_ReadFile w p =
     (if fault w OpReadFile then Inl (Fault OpReadFile)
      else case files w p of
        None \<Rightarrow> Inl NotExist
      | Some (Plain doc) \<Rightarrow> Inr doc
      | Some (Sqlite t) \<Rightarrow> Inr None)"

text \<open>\<^verbatim>\<open>sql.Open\<close> makes a handle and does not touch the file.\<close>

definition sql_Open :: "world \<Rightarrow> string \<Rightarrow> cause + DB" where
  "sql_Open w p = (if fault w OpOpen then Inl (Fault OpOpen) else Inr \<lparr>db_path = p\<rparr>)"

definition db_Close :: "world \<Rightarrow> DB \<Rightarrow> world" where
  "db_Close w db = emit w [DbClose (db_path db)]"

text \<open>
  The table of
  \<^verbatim>\<open>CREATE TABLE IF NOT EXISTS bookmarks (name TEXT NOT NULL, url TEXT NOT NULL PRIMARY KEY)\<close>.
\<close>

definition bookmarks_columns :: "column list" where
  "bookmarks_columns =
     [\<lparr>col_name = ''name'', col_type = ''TEXT'', col_notnull = True, col_pk = False\<rparr>,
      \<lparr>col_name = ''url'', col_type = ''TEXT'', col_notnull = True, col_pk = True\<rparr>]"

text \<open>
  The statement creates the database file when there is none, adds the empty table to a
  database that has no table \<open>bookmarks\<close>, and leaves an existing table \<open>bookmarks\<close>
  with all its rows as it is.
\<close>

definition db_Exec_create :: "world \<Rightarrow> DB \<Rightarrow> cause + world" where
  "db_Exec_create w db =
     (if fault w OpCreateTable then Inl (Fault OpCreateTable)
      else case files w (db_path db) of
        Some (Plain doc) \<Rightarrow> Inl NotADatabase
      | Some (Sqlite (Some t)) \<Rightarrow> Inr w
      | _ \<Rightarrow> Inr (write_file w (db_path db)
                 (Some (Sqlite (Some \<lparr>columns = bookmarks_columns, rows = []\<rparr>)))))"

text \<open>
  The table \<open>bookmarks\<close> as a statement over its columns \<open>name\<close> and \<open>url\<close> finds it.
\<close>

definition bookmarks_table :: "world \<Rightarrow> DB \<Rightarrow> cause + table" where
  "bookmarks_table w db =
     (case files w (db_path db) of
        Some (Plain doc) \<Rightarrow> Inl NotADatabase
      | Some (Sqlite (Some t)) \<Rightarrow>
          (if ''name'' \<in> set (map col_name (columns t)) \<and> ''url'' \<in> set (map col_name (columns t))
           then Inr t else Inl NoSuchColumn)
      | _ \<Rightarrow> Inl NoSuchTable)"

text \<open>
  \<^verbatim>\<open>db.Prepare\<close> of the driver keeps the text of the statement and does not look
  at the database: a missing table shows at the first execution.
\<close>

definition db_Prepare :: "world \<Rightarrow> DB \<Rightarrow> cause + unit" where
  "db_Prepare w db = (if fault w OpPrepare then Inl (Fault OpPrepare) else Inr ())"

text \<open>
  \<^verbatim>\<open>INSERT OR REPLACE\<close>: the rows that have the value of the new row in a primary key
  column are deleted, and the new row is added with a new rowid, after all others.
\<close>

definition conflicts :: "table \<Rightarrow> string \<times> string \<Rightarrow> string \<times> string \<Rightarrow> bool" where
  "conflicts t r r' =
     list_ex (\<lambda>c. col_pk c \<and>
        (col_name c = ''name'' \<and> fst r = fst r' \<or> col_name c = ''url'' \<and> snd r = snd r'))
       (columns t)"

definition insert_or_replace :: "table \<Rightarrow> string \<Rightarrow> string \<Rightarrow> table" where
  "insert_or_replace t n u =
     t\<lparr>rows := filter (\<lambda>r. \<not> conflicts t (n, u) r) (rows t) @ [(n, u)]\<rparr>"

text \<open>
  One execution of the prepared statement, on the \<open>k\<close>-th record of the batch. The
  connection is in autocommit mode: a statement that succeeds is written to the file,
  and one that fails leaves the file as it was.
\<close>

definition stmt_Exec :: "world \<Rightarrow> DB \<Rightarrow> nat \<Rightarrow> string \<Rightarrow> string \<Rightarrow> cause + world" where
  "stmt_Exec w db k n u =
     (if fault w (OpInsert k) then Inl (Fault (OpInsert k))
      else case bookmarks_table w db of
        Inl c \<Rightarrow> Inl c
      | Inr t \<Rightarrow>
          Inr (write_file w (db_path db) (Some (Sqlite (Some (insert_or_replace t n u))))))"

section \<open>The store\<close>

definition initDB :: "world \<Rightarrow> string \<Rightarrow> world \<times> (error + DB)" where
  "initDB w dbPath =
     (case (if os_Stat w dbPath = None then os_Remove w dbPath else Inr w) of
        Inl c \<Rightarrow> (w, Inl (ErrRemoveDB c))
      | Inr w1 \<Rightarrow>
          (case sql_Open w1 dbPath of
             Inl c \<Rightarrow> (w1, Inl (ErrOpenDB c))
           | Inr db \<Rightarrow>
               (case db_Exec_create w1 db of
                  Inl c \<Rightarrow> (db_Close w1 db, Inl (ErrCreateTable c))
                | Inr w2 \<Rightarrow> (w2, Inr db))))"

text \<open>The loop of \<open>saveBookmarksToDB\<close>, from the \<open>k\<close>-th record of the batch on.\<close>

fun saveBookmarksToDB_loop ::
  "world \<Rightarrow> DB \<Rightarrow> nat \<Rightarrow> BookmarkItem list \<Rightarrow> world \<times> error option" where
  "saveBookmarksToDB_loop w db k [] = (w, None)"
| "saveBookmarksToDB_loop w db k (bookmark # bookmarks) =
     (case stmt_Exec w db k (Name bookmark) (URL bookmark) of
        Inl c \<Rightarrow> (w, Some (ErrInsert c))
      | Inr w' \<Rightarrow> saveBookmarksToDB_loop w' db (Suc k) bookmarks)"

definition saveBookmarksToDB :: "world \<Rightarrow> DB \<Rightarrow> BookmarkItem list \<Rightarrow> world \<times> error option" where
  "saveBookmarksToDB w db bookmarks =
     (case db_Prepare w db of
        Inl c \<Rightarrow> (w, Some (ErrPrepare c))
      | Inr u \<Rightarrow> saveBookmarksToDB_loop w db 0 bookmarks)"

text \<open>
  The loop of \<open>GetAllBookmarks\<close> over the rows the query yields: \<^verbatim>\<open>rows.Next\<close> ends
  the loop at the last row or at a failure, which \<^verbatim>\<open>rows.Err\<close> then reports.
\<close>

fun GetAllBookmarks_loop ::
  "world \<Rightarrow> nat \<Rightarrow> (string \<times> string) list \<Rightarrow> BookmarkRecord list \<Rightarrow> error + BookmarkRecord list"
  where
  "GetAllBookmarks_loop w k [] bookmarks =
     (if fault w (OpNext k) then Inl (ErrRows (Fault (OpNext k))) else Inr bookmarks)"
| "GetAllBookmarks_loop w k (r # rs) bookmarks =
     (if fault w (OpNext k) then Inl (ErrRows (Fault (OpNext k)))
      else if fault w (OpScan k) then Inl (ErrScan (Fault (OpScan k)))
      else GetAllBookmarks_loop w (Suc k) rs (bookmarks @ [\<lparr>Name_r = fst r, URL_r = snd r\<rparr>]))"

definition GetAllBookmarks :: "world \<Rightarrow> DB \<Rightarrow> error + BookmarkRecord list" where
  "GetAllBookmarks w db =
     (if fault w OpQuery then Inl (ErrQuery (Fault OpQuery))
      else case bookmarks_table w db of
        Inl c \<Rightarrow> Inl (ErrQuery c)
      | Inr t \<Rightarrow> GetAllBookmarks_loop w 0 (rows t) [])"

section \<open>The report\<close>

text \<open>The texts of the source, as the bytes of their UTF-8 encoding.\<close>

definition msg_list_title :: string where
  "msg_list_title =
     [CHR 0xD0, CHR 0xA1, CHR 0xD0, CHR 0xBF, CHR 0xD0, CHR 0xB8, CHR 0xD1, CHR 0x81,
     CHR 0xD0, CHR 0xBE, CHR 0xD0, CHR 0xBA] @ '' '' @ [CHR 0xD0, CHR 0xB7, CHR 0xD0,
     CHR 0xB0, CHR 0xD0, CHR 0xBA, CHR 0xD0, CHR 0xBB, CHR 0xD0, CHR 0xB0, CHR 0xD0,
     CHR 0xB4, CHR 0xD0, CHR 0xBE, CHR 0xD0, CHR 0xBA] @ '':''"

definition hdr_name :: string where
  "hdr_name =
     [CHR 0xD0, CHR 0x9D, CHR 0xD0, CHR 0xB0, CHR 0xD0, CHR 0xB7, CHR 0xD0, CHR 0xB2,
     CHR 0xD0, CHR 0xB0, CHR 0xD0, CHR 0xBD, CHR 0xD0, CHR 0xB8, CHR 0xD0, CHR 0xB5]"

definition fmt_row :: string where
  "fmt_row =
     ''| %-30s | %-40s |'' @ [CHR 0x0A]"

definition fmt_total :: string where
  "fmt_total =
     [CHR 0xD0, CHR 0x92, CHR 0xD1, CHR 0x81, CHR 0xD0, CHR 0xB5, CHR 0xD0, CHR 0xB3,
     CHR 0xD0, CHR 0xBE] @ '' '' @ [CHR 0xD0, CHR 0xB7, CHR 0xD0, CHR 0xB0, CHR 0xD0,
     CHR 0xBA, CHR 0xD0, CHR 0xBB, CHR 0xD0, CHR 0xB0, CHR 0xD0, CHR 0xB4, CHR 0xD0,
     CHR 0xBE, CHR 0xD0, CHR 0xBA] @ '': %d'' @ [CHR 0x0A]"

definition fmt_found :: string where
  "fmt_found =
     [CHR 0xD0, CHR 0x9D, CHR 0xD0, CHR 0xB0, CHR 0xD0, CHR 0xB9, CHR 0xD0, CHR 0xB4,
     CHR 0xD0, CHR 0xB5, CHR 0xD0, CHR 0xBD] @ '' '' @ [CHR 0xD1, CHR 0x84, CHR 0xD0,
     CHR 0xB0, CHR 0xD0, CHR 0xB9, CHR 0xD0, CHR 0xBB] @ '' '' @ [CHR 0xD0, CHR 0xB7,
     CHR 0xD0, CHR 0xB0, CHR 0xD0, CHR 0xBA, CHR 0xD0, CHR 0xBB, CHR 0xD0, CHR 0xB0,
     CHR 0xD0, CHR 0xB4, CHR 0xD0, CHR 0xBE, CHR 0xD0, CHR 0xBA] @ '': %s'' @ [CHR 0x0A]"

definition fmt_err :: string where
  "fmt_err =
     [CHR 0xD0, CHR 0x9E, CHR 0xD1, CHR 0x88, CHR 0xD0, CHR 0xB8, CHR 0xD0, CHR 0xB1,
     CHR 0xD0, CHR 0xBA, CHR 0xD0, CHR 0xB0] @ '': %v''"

definition fmt_err_parse :: string where
  "fmt_err_parse =
     [CHR 0xD0, CHR 0x9E, CHR 0xD1, CHR 0x88, CHR 0xD0, CHR 0xB8, CHR 0xD0, CHR 0xB1,
     CHR 0xD0, CHR 0xBA, CHR 0xD0, CHR 0xB0] @ '' '' @ [CHR 0xD0, CHR 0xBF, CHR 0xD1,
     CHR 0x80, CHR 0xD0, CHR 0xB8] @ '' '' @ [CHR 0xD0, CHR 0xBF, CHR 0xD0, CHR 0xB0,
     CHR 0xD1, CHR 0x80, CHR 0xD1, CHR 0x81, CHR 0xD0, CHR 0xB8, CHR 0xD0, CHR 0xBD,
     CHR 0xD0, CHR 0xB3, CHR 0xD0, CHR 0xB5] @ '' '' @ [CHR 0xD0, CHR 0xB7, CHR 0xD0,
     CHR 0xB0, CHR 0xD0, CHR 0xBA, CHR 0xD0, CHR 0xBB, CHR 0xD0, CHR 0xB0, CHR 0xD0,
     CHR 0xB4, CHR 0xD0, CHR 0xBE, CHR 0xD0, CHR 0xBA] @ '': %v''"

definition fmt_err_init :: string where
  "fmt_err_init =
     [CHR 0xD0, CHR 0x9E, CHR 0xD1, CHR 0x88, CHR 0xD0, CHR 0xB8, CHR 0xD0, CHR 0xB1,
     CHR 0xD0, CHR 0xBA, CHR 0xD0, CHR 0xB0] @ '' '' @ [CHR 0xD0, CHR 0xB8, CHR 0xD0,
     CHR 0xBD, CHR 0xD0, CHR 0xB8, CHR 0xD1, CHR 0x86, CHR 0xD0, CHR 0xB8, CHR 0xD0,
     CHR 0xB0, CHR 0xD0, CHR 0xBB, CHR 0xD0, CHR 0xB8, CHR 0xD0, CHR 0xB7, CHR 0xD0,
     CHR 0xB0, CHR 0xD1, CHR 0x86, CHR 0xD0, CHR 0xB8, CHR 0xD0, CHR 0xB8] @ '' '' @
     [CHR 0xD0, CHR 0xB1, CHR 0xD0, CHR 0xB0, CHR 0xD0, CHR 0xB7, CHR 0xD1, CHR 0x8B] @
     '' '' @ [CHR 0xD0, CHR 0xB4, CHR 0xD0, CHR 0xB0, CHR 0xD0, CHR 0xBD, CHR 0xD0,
     CHR 0xBD, CHR 0xD1, CHR 0x8B, CHR 0xD1, CHR 0x85] @ '': %v''"

definition fmt_err_save :: string where
  "fmt_err_save =
     [CHR 0xD0, CHR 0x9E, CHR 0xD1, CHR 0x88, CHR 0xD0, CHR 0xB8, CHR 0xD0, CHR 0xB1,
     CHR 0xD0, CHR 0xBA, CHR 0xD0, CHR 0xB0] @ '' '' @ [CHR 0xD0, CHR 0xBF, CHR 0xD1,
     CHR 0x80, CHR 0xD0, CHR 0xB8] @ '' '' @ [CHR 0xD1, CHR 0x81, CHR 0xD0, CHR 0xBE,
     CHR 0xD1, CHR 0x85, CHR 0xD1, CHR 0x80, CHR 0xD0, CHR 0xB0, CHR 0xD0, CHR 0xBD,
     CHR 0xD0, CHR 0xB5, CHR 0xD0, CHR 0xBD, CHR 0xD0, CHR 0xB8, CHR 0xD0, CHR 0xB8] @
     '' '' @ [CHR 0xD0, CHR 0xB7, CHR 0xD0, CHR 0xB0, CHR 0xD0, CHR 0xBA, CHR 0xD0,
     CHR 0xBB, CHR 0xD0, CHR 0xB0, CHR 0xD0, CHR 0xB4, CHR 0xD0, CHR 0xBE, CHR 0xD0,
     CHR 0xBA] @ '' '' @ [CHR 0xD0, CHR 0xB2] @ '' '' @ [CHR 0xD0, CHR 0xB1, CHR 0xD0,
     CHR 0xB0, CHR 0xD0, CHR 0xB7, CHR 0xD1, CHR 0x83] @ '' '' @ [CHR 0xD0, CHR 0xB4,
     CHR 0xD0, CHR 0xB0, CHR 0xD0, CHR 0xBD, CHR 0xD0, CHR 0xBD, CHR 0xD1, CHR 0x8B,
     CHR 0xD1, CHR 0x85] @ '': %v''"

definition fmt_saved :: string where
  "fmt_saved =
     [CHR 0xD0, CHR 0xA3, CHR 0xD1, CHR 0x81, CHR 0xD0, CHR 0xBF, CHR 0xD0, CHR 0xB5,
     CHR 0xD1, CHR 0x88, CHR 0xD0, CHR 0xBD, CHR 0xD0, CHR 0xBE] @ '' '' @ [CHR 0xD1,
     CHR 0x81, CHR 0xD0, CHR 0xBE, CHR 0xD1, CHR 0x85, CHR 0xD1, CHR 0x80, CHR 0xD0,
     CHR 0xB0, CHR 0xD0, CHR 0xBD, CHR 0xD0, CHR 0xB5, CHR 0xD0, CHR 0xBD, CHR 0xD0,
     CHR 0xBE] @ '' %d '' @ [CHR 0xD0, CHR 0xB7, CHR 0xD0, CHR 0xB0, CHR 0xD0, CHR 0xBA,
     CHR 0xD0, CHR 0xBB, CHR 0xD0, CHR 0xB0, CHR 0xD0, CHR 0xB4, CHR 0xD0, CHR 0xBE,
     CHR 0xD0, CHR 0xBA] @ '' '' @ [CHR 0xD0, CHR 0xB2] @ '' '' @ [CHR 0xD0, CHR 0xB1,
     CHR 0xD0, CHR 0xB0, CHR 0xD0, CHR 0xB7, CHR 0xD1, CHR 0x83] @ '' '' @ [CHR 0xD0,
     CHR 0xB4, CHR 0xD0, CHR 0xB0, CHR 0xD0, CHR 0xBD, CHR 0xD0, CHR 0xBD, CHR 0xD1,
     CHR 0x8B, CHR 0xD1, CHR 0x85] @ '' %s'' @ [CHR 0x0A]"

definition fmt_err_print :: string where
  "fmt_err_print =
     [CHR 0xD0, CHR 0x9E, CHR 0xD1, CHR 0x88, CHR 0xD0, CHR 0xB8, CHR 0xD0, CHR 0xB1,
     CHR 0xD0, CHR 0xBA, CHR 0xD0, CHR 0xB0] @ '' '' @ [CHR 0xD0, CHR 0xBF, CHR 0xD1,
     CHR 0x80, CHR 0xD0, CHR 0xB8] @ '' '' @ [CHR 0xD0, CHR 0xB2, CHR 0xD1, CHR 0x8B,
     CHR 0xD0, CHR 0xB2, CHR 0xD0, CHR 0xBE, CHR 0xD0, CHR 0xB4, CHR 0xD0, CHR 0xB5] @
     '' '' @ [CHR 0xD0, CHR 0xB7, CHR 0xD0, CHR 0xB0, CHR 0xD0, CHR 0xBA, CHR 0xD0,
     CHR 0xBB, CHR 0xD0, CHR 0xB0, CHR 0xD0, CHR 0xB4, CHR 0xD0, CHR 0xBE, CHR 0xD0,
     CHR 0xBA] @ '': %v''"
definition hr_line :: string where
  "hr_line = replicate 71 (CHR ''-'')"

text \<open>
  The cut of a name or a url for the listing: \<open>s[:keep] + "..."\<close> when \<open>len(s)\<close> is
  above \<open>limit\<close>, the string itself otherwise. The lengths are lengths in bytes.
\<close>

definition shorten :: "nat \<Rightarrow> nat \<Rightarrow> string \<Rightarrow> string" where
  "shorten limit keep s = (if length s > limit then take keep s @ ''...'' else s)"

definition print_row :: "BookmarkRecord \<Rightarrow> event" where
  "print_row bookmark =
     Printf fmt_row [S (shorten 27 24 (Name_r bookmark)), S (shorten 37 34 (URL_r bookmark))]"

definition listing :: "BookmarkRecord list \<Rightarrow> event list" where
  "listing bookmarks =
     [Println msg_list_title, Println hr_line,
      Printf fmt_row [S hdr_name, S ''URL''], Println hr_line]
     @ map print_row bookmarks
     @ [Println hr_line, Printf fmt_total [D (int (length bookmarks))]]"

definition PrintBookmarks :: "world \<Rightarrow> DB \<Rightarrow> world \<times> error option" where
  "PrintBookmarks w db =
     (case GetAllBookmarks w db of
        Inl e \<Rightarrow> (w, Some (ErrGetBookmarks e))
      | Inr bookmarks \<Rightarrow> (emit w (listing bookmarks), None))"

section \<open>Locating and decoding the bookmark file\<close>

definition getBookmarksFilePath :: "world \<Rightarrow> error + string" where
  "getBookmarksFilePath w =
     (let userProfile = os_Getenv w ''USERPROFILE'' in
      if userProfile = [] then Inl ErrUserProfile
      else
        let bookmarksPath = filepath_Join w [userProfile, ''AppData'', ''Local'', ''Google'',
              ''Chrome'', ''User Data'', ''Default'', ''Bookmarks'']
        in if os_Stat w bookmarksPath = Some NotExist
           then Inl (ErrBookmarksNotFound bookmarksPath)
           else Inr bookmarksPath)"

text \<open>
  \<^verbatim>\<open>json.Unmarshal\<close> into the structs of the source. A key of a JSON object
  stands for the field whose name it equals, letter case ignored (the runes U+017F and
  U+212A count as \<open>s\<close> and \<open>k\<close>); \<open>foldName\<close> is the form of a key that is compared.
\<close>

definition upper :: "char \<Rightarrow> char" where
  "upper c =
     (case map_of (zip ''abcdefghijklmnopqrstuvwxyz'' ''ABCDEFGHIJKLMNOPQRSTUVWXYZ'') c of
        Some C \<Rightarrow> C
      | None \<Rightarrow> c)"

fun foldName :: "string \<Rightarrow> string" where
  "foldName [] = []"
| "foldName (c # cs) =
     (if c = CHR 0xC5 \<and> take 1 cs = [CHR 0xBF] then CHR ''S'' # foldName (drop 1 cs)
      else if c = CHR 0xE2 \<and> take 2 cs = [CHR 0x84, CHR 0xAA] then CHR ''K'' # foldName (drop 2 cs)
      else upper c # foldName cs)"

definition is_field :: "string \<Rightarrow> string \<Rightarrow> bool" where
  "is_field key name = (foldName key = foldName name)"

text \<open>
  While a document is decoded, a slice of children is more than the elements the
  program sees: \<^verbatim>\<open>encoding/json\<close> decodes the \<open>i\<close>-th element of an array into
  the \<open>i\<close>-th element of the backing array of the slice, which is an element the slice
  holds, an element that an earlier, longer content left behind the length of the slice
  (\<open>spare\<close>), or a zero element. So a key that occurs twice in an object is decoded
  twice into the same target. \<open>ItemMem\<close> is a node with the backing array of its
  children, \<open>item_of\<close> the node the program sees; the other structs likewise.
\<close>

datatype ItemMem =
  ItemMem (DateAdded_m: string) (ID_m: string) (Name_m: string) (Type_m: string)
    (URL_m: string) (Children_m: "ItemMem list") (spare_m: "ItemMem list")

fun item_of :: "ItemMem \<Rightarrow> BookmarkItem" where
  "item_of (ItemMem d i n t u cs sp) = BookmarkItem d i n t u (map item_of cs)"

record BookmarkFolderMem =
  Children_fm :: "ItemMem list"
  spare_fm :: "ItemMem list"
  DateAdded_fm :: string
  DateModified_fm :: string
  ID_fm :: string
  Name_fm :: string
  Type_fm :: string

definition folder_of :: "BookmarkFolderMem \<Rightarrow> BookmarkFolder" where
  "folder_of f =
     \<lparr>Children_f = map item_of (Children_fm f), DateAdded_f = DateAdded_fm f,
      DateModified_f = DateModified_fm f, ID_f = ID_fm f, Name_f = Name_fm f,
      Type_f = Type_fm f\<rparr>"

record RootsMem =
  BookmarkBar_m :: BookmarkFolderMem
  Other_m :: BookmarkFolderMem
  Synced_m :: BookmarkFolderMem

definition roots_of :: "RootsMem \<Rightarrow> Roots" where
  "roots_of r =
     \<lparr>BookmarkBar = folder_of (BookmarkBar_m r), Other = folder_of (Other_m r),
      Synced = folder_of (Synced_m r)\<rparr>"

record BookmarksMem =
  Roots_m :: RootsMem
  Version_m :: int
  Checksum_m :: string

definition bookmarks_of :: "BookmarksMem \<Rightarrow> Bookmarks" where
  "bookmarks_of b =
     \<lparr>Roots = roots_of (Roots_m b), Version = Version_m b, Checksum = Checksum_m b\<rparr>"

text \<open>
  Every decoder takes the JSON value and the value the target holds, and returns the
  new value of the target or the error. \<open>null\<close> leaves a string, a number and a struct
  as they are and makes a slice \<open>nil\<close>; a value of another JSON type than the target's
  is an \<open>UnmarshalTypeError\<close>; an absent key leaves its field as it is; a key that
  stands for no field is skipped. An \<open>int\<close> has 64 bits. An empty array makes a new
  empty slice; another array is decoded element by element into the backing array, and
  what the backing array holds behind the last element stays there.
\<close>

definition decodeString :: "json \<Rightarrow> string \<Rightarrow> json_error + string" where
  "decodeString j cur =
     (case j of JNull \<Rightarrow> Inr cur | JString s \<Rightarrow> Inr s | _ \<Rightarrow> Inl (UnmarshalTypeError ''string''))"

definition decodeInt :: "json \<Rightarrow> int \<Rightarrow> json_error + int" where
  "decodeInt j cur =
     (case j of
        JNull \<Rightarrow> Inr cur
      | JNumber (IntLit n) \<Rightarrow>
          (if - (2 ^ 63) \<le> n \<and> n < 2 ^ 63 then Inr n else Inl (UnmarshalTypeError ''int''))
      | _ \<Rightarrow> Inl (UnmarshalTypeError ''int''))"

definition zeroItem :: ItemMem where
  "zeroItem = ItemMem [] [] [] [] [] [] []"

fun decodeItem :: "json \<Rightarrow> ItemMem \<Rightarrow> json_error + ItemMem"
  and decodeItemFields :: "(string \<times> json) list \<Rightarrow> ItemMem \<Rightarrow> json_error + ItemMem"
  and decodeItems ::
    "json \<Rightarrow> ItemMem list \<Rightarrow> ItemMem list \<Rightarrow> json_error + ItemMem list \<times> ItemMem list"
  and decodeElems :: "json list \<Rightarrow> ItemMem list \<Rightarrow> json_error + ItemMem list"
  where
  "decodeItem JNull cur = Inr cur"
| "decodeItem (JObject kvs) cur = decodeItemFields kvs cur"
| "decodeItem (JBool b) cur = Inl (UnmarshalTypeError ''main.BookmarkItem'')"
| "decodeItem (JNumber x) cur = Inl (UnmarshalTypeError ''main.BookmarkItem'')"
| "decodeItem (JString s) cur = Inl (UnmarshalTypeError ''main.BookmarkItem'')"
| "decodeItem (JArray js) cur = Inl (UnmarshalTypeError ''main.BookmarkItem'')"
| "decodeItemFields [] cur = Inr cur"
| "decodeItemFields ((k, v) # kvs) (ItemMem d i n t u cs sp) =
     (if is_field k ''date_added'' then
        (case decodeString v d of Inl e \<Rightarrow> Inl e
         | Inr d' \<Rightarrow> decodeItemFields kvs (ItemMem d' i n t u cs sp))
      else if is_field k ''id'' then
        (case decodeString v i of Inl e \<Rightarrow> Inl e
         | Inr i' \<Rightarrow> decodeItemFields kvs (ItemMem d i' n t u cs sp))
      else if is_field k ''name'' then
        (case decodeString v n of Inl e \<Rightarrow> Inl e
         | Inr n' \<Rightarrow> decodeItemFields kvs (ItemMem d i n' t u cs sp))
      else if is_field k ''type'' then
        (case decodeString v t of Inl e \<Rightarrow> Inl e
         | Inr t' \<Rightarrow> decodeItemFields kvs (ItemMem d i n t' u cs sp))
      else if is_field k ''url'' then
        (case decodeString v u of Inl e \<Rightarrow> Inl e
         | Inr u' \<Rightarrow> decodeItemFields kvs (ItemMem d i n t u' cs sp))
      else if is_field k ''children'' then
        (case decodeItems v cs sp of Inl e \<Rightarrow> Inl e
         | Inr m \<Rightarrow> decodeItemFields kvs (ItemMem d i n t u (fst m) (snd m)))
      else decodeItemFields kvs (ItemMem d i n t u cs sp))"
| "decodeItems JNull cs sp = Inr ([], [])"
| "decodeItems (JArray []) cs sp = Inr ([], [])"
| "decodeItems (JArray (j # js)) cs sp =
     (case decodeElems (j # js) (cs @ sp) of Inl e \<Rightarrow> Inl e
      | Inr xs \<Rightarrow> Inr (xs, drop (length (j # js)) (cs @ sp)))"
| "decodeItems (JBool b) cs sp = Inl (UnmarshalTypeError ''[]main.BookmarkItem'')"
| "decodeItems (JNumber x) cs sp = Inl (UnmarshalTypeError ''[]main.BookmarkItem'')"
| "decodeItems (JString s) cs sp = Inl (UnmarshalTypeError ''[]main.BookmarkItem'')"
| "decodeItems (JObject kvs) cs sp = Inl (UnmarshalTypeError ''[]main.BookmarkItem'')"
| "decodeElems [] mem = Inr []"
| "decodeElems (j # js) mem =
     (case decodeItem j (case mem of [] \<Rightarrow> zeroItem | x # rest \<Rightarrow> x) of Inl e \<Rightarrow> Inl e
      | Inr x \<Rightarrow> (case decodeElems js (drop 1 mem) of Inl e \<Rightarrow> Inl e | Inr xs \<Rightarrow> Inr (x # xs)))"

fun decodeFolderFields ::
  "(string \<times> json) list \<Rightarrow> BookmarkFolderMem \<Rightarrow> json_error + BookmarkFolderMem"
  where
  "decodeFolderFields [] cur = Inr cur"
| "decodeFolderFields ((k, v) # kvs) cur =
     (if is_field k ''children'' then
        (case decodeItems v (Children_fm cur) (spare_fm cur) of Inl e \<Rightarrow> Inl e
         | Inr m \<Rightarrow> decodeFolderFields kvs (cur\<lparr>Children_fm := fst m, spare_fm := snd m\<rparr>))
      else if is_field k ''date_added'' then
        (case decodeString v (DateAdded_fm cur) of Inl e \<Rightarrow> Inl e
         | Inr x \<Rightarrow> decodeFolderFields kvs (cur\<lparr>DateAdded_fm := x\<rparr>))
      else if is_field k ''date_modified'' then
        (case decodeString v (DateModified_fm cur) of Inl e \<Rightarrow> Inl e
         | Inr x \<Rightarrow> decodeFolderFields kvs (cur\<lparr>DateModified_fm := x\<rparr>))
      else if is_field k ''id'' then
        (case decodeString v (ID_fm cur) of Inl e \<Rightarrow> Inl e
         | Inr x \<Rightarrow> decodeFolderFields kvs (cur\<lparr>ID_fm := x\<rparr>))
      else if is_field k ''name'' then
        (case decodeString v (Name_fm cur) of Inl e \<Rightarrow> Inl e
         | Inr x \<Rightarrow> decodeFolderFields kvs (cur\<lparr>Name_fm := x\<rparr>))
      else if is_field k ''type'' then
        (case decodeString v (Type_fm cur) of Inl e \<Rightarrow> Inl e
         | Inr x \<Rightarrow> decodeFolderFields kvs (cur\<lparr>Type_fm := x\<rparr>))
      else decodeFolderFields kvs cur)"

definition decodeFolder :: "json \<Rightarrow> BookmarkFolderMem \<Rightarrow> json_error + BookmarkFolderMem" where
  "decodeFolder j cur =
     (case j of
        JNull \<Rightarrow> Inr cur
      | JObject kvs \<Rightarrow> decodeFolderFields kvs cur
      | _ \<Rightarrow> Inl (UnmarshalTypeError ''main.BookmarkFolder''))"

fun decodeRootsFields :: "(string \<times> json) list \<Rightarrow> RootsMem \<Rightarrow> json_error + RootsMem" where
  "decodeRootsFields [] cur = Inr cur"
| "decodeRootsFields ((k, v) # kvs) cur =
     (if is_field k ''bookmark_bar'' then
        (case decodeFolder v (BookmarkBar_m cur) of Inl e \<Rightarrow> Inl e
         | Inr x \<Rightarrow> decodeRootsFields kvs (cur\<lparr>BookmarkBar_m := x\<rparr>))
      else if is_field k ''other'' then
        (case decodeFolder v (Other_m cur) of Inl e \<Rightarrow> Inl e
         | Inr x \<Rightarrow> decodeRootsFields kvs (cur\<lparr>Other_m := x\<rparr>))
      else if is_field k ''synced'' then
        (case decodeFolder v (Synced_m cur) of Inl e \<Rightarrow> Inl e
         | Inr x \<Rightarrow> decodeRootsFields kvs (cur\<lparr>Synced_m := x\<rparr>))
      else decodeRootsFields kvs cur)"

definition decodeRoots :: "json \<Rightarrow> RootsMem \<Rightarrow> json_error + RootsMem" where
  "decodeRoots j cur =
     (case j of
        JNull \<Rightarrow> Inr cur
      | JObject kvs \<Rightarrow> decodeRootsFields kvs cur
      | _ \<Rightarrow> Inl (UnmarshalTypeError ''main.Roots''))"

fun decodeBookmarksFields ::
  "(string \<times> json) list \<Rightarrow> BookmarksMem \<Rightarrow> json_error + BookmarksMem"
  where
  "decodeBookmarksFields [] cur = Inr cur"
| "decodeBookmarksFields ((k, v) # kvs) cur =
     (if is_field k ''roots'' then
        (case decodeRoots v (Roots_m cur) of Inl e \<Rightarrow> Inl e
         | Inr x \<Rightarrow> decodeBookmarksFields kvs (cur\<lparr>Roots_m := x\<rparr>))
      else if is_field k ''version'' then
        (case decodeInt v (Version_m cur) of Inl e \<Rightarrow> Inl e
         | Inr x \<Rightarrow> decodeBookmarksFields kvs (cur\<lparr>Version_m := x\<rparr>))
      else if is_field k ''checksum'' then
        (case decodeString v (Checksum_m cur) of Inl e \<Rightarrow> Inl e
         | Inr x \<Rightarrow> decodeBookmarksFields kvs (cur\<lparr>Checksum_m := x\<rparr>))
      else decodeBookmarksFields kvs cur)"

definition zeroFolder :: BookmarkFolder where
  "zeroFolder = \<lparr>Children_f = [], DateAdded_f = [], DateModified_f = [], ID_f = [],
     Name_f = [], Type_f = []\<rparr>"

definition zeroBookmarks :: Bookmarks where
  "zeroBookmarks =
     \<lparr>Roots = \<lparr>BookmarkBar = zeroFolder, Other = zeroFolder, Synced = zeroFolder\<rparr>,
      Version = 0, Checksum = []\<rparr>"

definition zeroFolderMem :: BookmarkFolderMem where
  "zeroFolderMem = \<lparr>Children_fm = [], spare_fm = [], DateAdded_fm = [], DateModified_fm = [],
     ID_fm = [], Name_fm = [], Type_fm = []\<rparr>"

definition zeroBookmarksMem :: BookmarksMem where
  "zeroBookmarksMem =
     \<lparr>Roots_m = \<lparr>BookmarkBar_m = zeroFolderMem, Other_m = zeroFolderMem,
                 Synced_m = zeroFolderMem\<rparr>,
      Version_m = 0, Checksum_m = []\<rparr>"

text \<open>
  \<open>json_Unmarshal\<close> is \<^verbatim>\<open>json.Unmarshal(data, &bookmarks)\<close> for a variable
  \<open>bookmarks\<close> that holds the zero value: the syntax of the whole input is checked
  first, then the document is decoded; the program sees the decoded value without the
  spare elements.
\<close>

definition json_Unmarshal :: "json option \<Rightarrow> json_error + Bookmarks" where
  "json_Unmarshal data =
     (case data of
        None \<Rightarrow> Inl SyntaxError
      | Some JNull \<Rightarrow> Inr zeroBookmarks
      | Some (JObject kvs) \<Rightarrow>
          (case decodeBookmarksFields kvs zeroBookmarksMem of
             Inl e \<Rightarrow> Inl e
           | Inr m \<Rightarrow> Inr (bookmarks_of m))
      | Some other \<Rightarrow> Inl (UnmarshalTypeError ''main.Bookmarks''))"

definition parseBookmarks :: "world \<Rightarrow> string \<Rightarrow> error + Bookmarks" where
  "parseBookmarks w filePath =
     (case os_ReadFile w filePath of
        Inl c \<Rightarrow> Inl (ErrReadFile c)
      | Inr data \<Rightarrow>
          (case json_Unmarshal data of
             Inl e \<Rightarrow> Inl (ErrParseJSON e)
           | Inr bookmarks \<Rightarrow> Inr bookmarks))"

section \<open>The driver\<close>

text \<open>
  \<^verbatim>\<open>log.Fatalf\<close> writes the message and ends the process with status 1 at once:
  functions deferred by the caller do not run. A return from \<open>main\<close> runs the deferred
  \<^verbatim>\<open>db.Close()\<close> and ends the process with status 0.
\<close>

definition log_Fatalf :: "world \<Rightarrow> string \<Rightarrow> arg list \<Rightarrow> world" where
  "log_Fatalf w f args = emit w [LogPrintf f args, Exit 1]"

definition main :: "world \<Rightarrow> world" where
  "main w =
     (case getBookmarksFilePath w of
        Inl err \<Rightarrow> log_Fatalf w fmt_err [V err]
      | Inr bookmarksPath \<Rightarrow>
          (let w1 = emit w [Printf fmt_found [S bookmarksPath]] in
           case parseBookmarks w1 bookmarksPath of
             Inl err \<Rightarrow> log_Fatalf w1 fmt_err_parse [V err]
           | Inr bookmarks \<Rightarrow>
               (let dbPath = ''bookmarks.db'' in
                case initDB w1 dbPath of
                  (w2, Inl err) \<Rightarrow> log_Fatalf w2 fmt_err_init [V err]
                | (w2, Inr db) \<Rightarrow>
                    (let allBookmarks =
                       extractBookmarks (Children_f (BookmarkBar (Roots bookmarks)))
                       @ extractBookmarks (Children_f (Other (Roots bookmarks)))
                       @ extractBookmarks (Children_f (Synced (Roots bookmarks)))
                     in
                     case saveBookmarksToDB w2 db allBookmarks of
                       (w3, Some err) \<Rightarrow> log_Fatalf w3 fmt_err_save [V err]
                     | (w3, None) \<Rightarrow>
                         (let w4 = emit w3
                            [Printf fmt_saved [D (int (length allBookmarks)), S dbPath]]
                          in
                          case PrintBookmarks w4 db of
                            (w5, Some err) \<Rightarrow>
                              emit (db_Close (emit w5 [LogPrintf fmt_err_print [V err]]) db)
                                [Exit 0]
                          | (w5, None) \<Rightarrow> emit (db_Close w5 db) [Exit 0])))))"

section \<open>The documents the decoder accepts\<close>

text \<open>
  For comparison with the decoder, the shape of a document in words: a value \<^emph>\<open>fits\<close>
  a string field when it is a string or \<open>null\<close>, an \<open>int\<close> field when it is an
  integer literal of 64 bits or \<open>null\<close>, a struct when it is \<open>null\<close> or an object in
  which the value of every key that stands for a field fits that field, and a slice when
  it is \<open>null\<close> or an array of values that fit the element. Nothing is asked of a key
  that stands for no field, and no key has to be there.
\<close>

definition fits_string :: "json \<Rightarrow> bool" where
  "fits_string j = (case j of JNull \<Rightarrow> True | JString s \<Rightarrow> True | _ \<Rightarrow> False)"

definition fits_int :: "json \<Rightarrow> bool" where
  "fits_int j =
     (case j of JNull \<Rightarrow> True
      | JNumber (IntLit n) \<Rightarrow> - (2 ^ 63) \<le> n \<and> n < 2 ^ 63
      | _ \<Rightarrow> False)"

definition item_string_fields :: "string list" where
  "item_string_fields = [''date_added'', ''id'', ''name'', ''type'', ''url'']"

definition folder_string_fields :: "string list" where
  "folder_string_fields = [''date_added'', ''date_modified'', ''id'', ''name'', ''type'']"

fun fits_item :: "json \<Rightarrow> bool"
  and fits_item_fields :: "(string \<times> json) list \<Rightarrow> bool"
  and fits_items :: "json \<Rightarrow> bool"
  and fits_elems :: "json list \<Rightarrow> bool"
  where
  "fits_item JNull = True"
| "fits_item (JObject kvs) = fits_item_fields kvs"
| "fits_item (JBool b) = False"
| "fits_item (JNumber x) = False"
| "fits_item (JString s) = False"
| "fits_item (JArray js) = False"
| "fits_item_fields [] = True"
| "fits_item_fields ((k, v) # kvs) =
     ((if is_field k ''children'' then fits_items v
       else if list_ex (is_field k) item_string_fields then fits_string v
       else True)
      \<and> fits_item_fields kvs)"
| "fits_items JNull = True"
| "fits_items (JArray js) = fits_elems js"
| "fits_items (JBool b) = False"
| "fits_items (JNumber x) = False"
| "fits_items (JString s) = False"
| "fits_items (JObject kvs) = False"
| "fits_elems [] = True"
| "fits_elems (j # js) = (fits_item j \<and> fits_elems js)"

definition fits_folder :: "json \<Rightarrow> bool" where
  "fits_folder j =
     (case j of
        JNull \<Rightarrow> True
      | JObject kvs \<Rightarrow>
          list_all (\<lambda>(k, v).
            if is_field k ''children'' then fits_items v
            else if list_ex (is_field k) folder_string_fields then fits_string v
            else True) kvs
      | _ \<Rightarrow> False)"

definition fits_roots :: "json \<Rightarrow> bool" where
  "fits_roots j =
     (case j of
        JNull \<Rightarrow> True
      | JObject kvs \<Rightarrow>
          list_all (\<lambda>(k, v).
            if list_ex (is_field k) [''bookmark_bar'', ''other'', ''synced''] then fits_folder v
            else True) kvs
      | _ \<Rightarrow> False)"

definition fits_bookmarks :: "json \<Rightarrow> bool" where
  "fits_bookmarks j =
     (case j of
        JNull \<Rightarrow> True
      | JObject kvs \<Rightarrow>
          list_all (\<lambda>(k, v).
            if is_field k ''roots'' then fits_roots v
            else if is_field k ''version'' then fits_int v
            else if is_field k ''checksum'' then fits_string v
            else True) kvs
      | _ \<Rightarrow> False)"

text \<open>An object mentions a field when one of its keys stands for it.\<close>

definition mentions :: "string \<Rightarrow> (string \<times> json) list \<Rightarrow> bool" where
  "mentions name kvs = list_ex (\<lambda>(k, v). is_field k name) kvs"

definition accepted :: "json option \<Rightarrow> bool" where
  "accepted data = (case data of None \<Rightarrow> False | Some j \<Rightarrow> fits_bookmarks j)"

section \<open>Writing a value as a document\<close>

text \<open>
  A value of the program as a JSON document that leaves out every field that holds its
  zero value: an empty string, an empty sequence of children, a folder or a set of roots
  that is all zero, the version 0. \<open>mem_of\<close> is a node as the decoder keeps it, with
  no spare elements.
\<close>

definition opt_field :: "string \<Rightarrow> string \<Rightarrow> (string \<times> json) list" where
  "opt_field name s = (if s = [] then [] else [(name, JString s)])"

fun sparse_item_json :: "BookmarkItem \<Rightarrow> json" where
  "sparse_item_json (BookmarkItem d i n t u cs) =
     JObject (opt_field ''date_added'' d @ opt_field ''id'' i @ opt_field ''name'' n
              @ opt_field ''type'' t @ opt_field ''url'' u
              @ (if cs = [] then [] else [(''children'', JArray (map sparse_item_json cs))]))"

definition sparse_folder_json :: "BookmarkFolder \<Rightarrow> json" where
  "sparse_folder_json f =
     JObject ((if Children_f f = [] then []
               else [(''children'', JArray (map sparse_item_json (Children_f f)))])
              @ opt_field ''date_added'' (DateAdded_f f)
              @ opt_field ''date_modified'' (DateModified_f f)
              @ opt_field ''id'' (ID_f f) @ opt_field ''name'' (Name_f f)
              @ opt_field ''type'' (Type_f f))"

definition opt_folder :: "string \<Rightarrow> BookmarkFolder \<Rightarrow> (string \<times> json) list" where
  "opt_folder name f = (if f = zeroFolder then [] else [(name, sparse_folder_json f)])"

definition sparse_bookmarks_json :: "Bookmarks \<Rightarrow> json" where
  "sparse_bookmarks_json b =
     JObject ((if Roots b = Roots zeroBookmarks then []
               else [(''roots'', JObject (opt_folder ''bookmark_bar'' (BookmarkBar (Roots b))
                                         @ opt_folder ''other'' (Other (Roots b))
                                         @ opt_folder ''synced'' (Synced (Roots b))))])
              @ (if Version b = 0 then [] else [(''version'', JNumber (IntLit (Version b)))])
              @ opt_field ''checksum'' (Checksum b))"

fun mem_of :: "BookmarkItem \<Rightarrow> ItemMem" where
  "mem_of (BookmarkItem d i n t u cs) = ItemMem d i n t u (map mem_of cs) []"

definition folder_mem_of :: "BookmarkFolder \<Rightarrow> BookmarkFolderMem" where
  "folder_mem_of f =
     \<lparr>Children_fm = map mem_of (Children_f f), spare_fm = [], DateAdded_fm = DateAdded_f f,
      DateModified_fm = DateModified_f f, ID_fm = ID_f f, Name_fm = Name_f f,
      Type_fm = Type_f f\<rparr>"

definition roots_mem_of :: "Roots \<Rightarrow> RootsMem" where
  "roots_mem_of r =
     \<lparr>BookmarkBar_m = folder_mem_of (BookmarkBar r), Other_m = folder_mem_of (Other r),
      Synced_m = folder_mem_of (Synced r)\<rparr>"

section \<open>The net effect of a batch, and example inputs\<close>

text \<open>
  The rows of a table whose primary key is \<open>url\<close> after a batch in which no statement
  fails, from the rows \<open>rs\<close> on: each record removes the rows of its url and is added
  at the end. \<open>stored\<close> is what a query then yields when the batch went into an empty
  table.
\<close>

definition upsert :: "(string \<times> string) list \<Rightarrow> BookmarkItem list \<Rightarrow> (string \<times> string) list" where
  "upsert rs records =
     foldl (\<lambda>rs b. filter (\<lambda>r. snd r \<noteq> URL b) rs @ [(Name b, URL b)]) rs records"

text \<open>The table after the inserts of a sequence of records, one after the other.\<close>

definition insert_all :: "table \<Rightarrow> BookmarkItem list \<Rightarrow> table" where
  "insert_all t records = foldl (\<lambda>t b. insert_or_replace t (Name b) (URL b)) t records"

definition stored :: "BookmarkItem list \<Rightarrow> BookmarkRecord list" where
  "stored records = map (\<lambda>r. \<lparr>Name_r = fst r, URL_r = snd r\<rparr>) (upsert [] records)"

text \<open>
  The forest of the specification's worked example: folder \<open>F\<close> with the leaf \<open>A\<close> and
  the folder \<open>G\<close>, which holds the leaf \<open>B\<close>; beside \<open>F\<close> the leaf \<open>C\<close>. \<open>ex_A2\<close> is
  a second bookmark of the url of \<open>A\<close>, \<open>ex_U\<close> a node of type \<open>url\<close> that has a child,
  \<open>ex_E\<close> a folder without children and \<open>ex_X\<close> a node of an unknown type.
\<close>

definition ex_A :: BookmarkItem where
  "ex_A = BookmarkItem ''13311432144000001'' ''2'' ''A'' ''url'' ''http://a'' []"

definition ex_B :: BookmarkItem where
  "ex_B = BookmarkItem ''13311432144000002'' ''4'' ''B'' ''url'' ''http://b'' []"

definition ex_C :: BookmarkItem where
  "ex_C = BookmarkItem ''13311432144000003'' ''5'' ''C'' ''url'' ''http://c'' []"

definition ex_G :: BookmarkItem where
  "ex_G = BookmarkItem ''13311432144000000'' ''3'' ''G'' ''folder'' [] [ex_B]"

definition ex_F :: BookmarkItem where
  "ex_F = BookmarkItem ''13311432144000000'' ''1'' ''F'' ''folder'' [] [ex_A, ex_G]"

definition ex_A2 :: BookmarkItem where
  "ex_A2 = BookmarkItem ''13311432144000004'' ''6'' ''A2'' ''url'' ''http://a'' []"

definition ex_U :: BookmarkItem where
  "ex_U = BookmarkItem ''13311432144000005'' ''7'' ''U'' ''url'' ''http://u'' [ex_B]"

definition ex_E :: BookmarkItem where
  "ex_E = BookmarkItem ''13311432144000006'' ''8'' ''E'' ''folder'' ''http://e'' []"

definition ex_X :: BookmarkItem where
  "ex_X = BookmarkItem ''13311432144000007'' ''9'' ''X'' ''separator'' ''http://x'' [ex_B]"

text \<open>
  A world for the examples: a path join that puts \<open>/\<close> between the elements, the
  bookmark file at the path the program looks for, a database file left by an earlier
  run, and no failing operation. The bookmark file holds \<open>F\<close> and \<open>C\<close> in the bookmark
  bar, \<open>A2\<close> under \<open>other\<close>, and a key that stands for no field; \<open>item_json\<close> writes
  a node as the browser does, and \<open>ex_bookmarks\<close> is what the file decodes to.
\<close>

definition ex_Join :: "string list \<Rightarrow> string" where
  "ex_Join elems = foldr (\<lambda>a b. if b = [] then a else a @ ''/'' @ b) elems []"

fun item_json :: "BookmarkItem \<Rightarrow> json" where
  "item_json (BookmarkItem d i n t u cs) =
     JObject ([(''date_added'', JString d), (''id'', JString i), (''name'', JString n),
               (''type'', JString t)]
              @ (if u = [] then [] else [(''url'', JString u)])
              @ (if cs = [] then [] else [(''children'', JArray (map item_json cs))]))"

definition ex_folder_json :: "string \<Rightarrow> BookmarkItem list \<Rightarrow> json" where
  "ex_folder_json n cs =
     JObject [(''children'', JArray (map item_json cs)),
       (''date_added'', JString ''13311432144000000''), (''id'', JString ''0''),
       (''name'', JString n), (''type'', JString ''folder'')]"

definition ex_doc :: json where
  "ex_doc =
     JObject [(''checksum'', JString ''0123''),
       (''roots'', JObject
          [(''bookmark_bar'', ex_folder_json ''bar'' [ex_F, ex_C]),
           (''other'', ex_folder_json ''other'' [ex_A2]),
           (''synced'', ex_folder_json ''synced'' [])]),
       (''sync_metadata'', JString ''abc''),
       (''version'', JNumber (IntLit 1))]"

definition ex_folder :: "string \<Rightarrow> BookmarkItem list \<Rightarrow> BookmarkFolder" where
  "ex_folder n cs =
     \<lparr>Children_f = cs, DateAdded_f = ''13311432144000000'', DateModified_f = [],
      ID_f = ''0'', Name_f = n, Type_f = ''folder''\<rparr>"

definition ex_bookmarks :: Bookmarks where
  "ex_bookmarks =
     \<lparr>Roots = \<lparr>BookmarkBar = ex_folder ''bar'' [ex_F, ex_C],
               Other = ex_folder ''other'' [ex_A2],
               Synced = ex_folder ''synced'' []\<rparr>,
      Version = 1, Checksum = ''0123''\<rparr>"

definition ex_path :: string where
  "ex_path = ''/home/u/AppData/Local/Google/Chrome/User Data/Default/Bookmarks''"

definition ex_world :: world where
  "ex_world =
     \<lparr>environ = (\<lambda>k. if k = ''USERPROFILE'' then ''/home/u'' else []),
      filepath_Join = ex_Join,
      files = [ex_path \<mapsto> Plain (Some ex_doc),
               ''bookmarks.db'' \<mapsto>
                 Sqlite (Some \<lparr>columns = bookmarks_columns, rows = [(''Old'', ''http://old'')]\<rparr>)],
      fault = (\<lambda>op. False),
      trace = []\<rparr>"

text \<open>The same world with a disk that fails at the first, or at the second, insert.\<close>

definition ex_world_fail0 :: world where
  "ex_world_fail0 = ex_world\<lparr>fault := (\<lambda>op. op = OpInsert 0)\<rparr>"

definition ex_world_fail1 :: world where
  "ex_world_fail1 = ex_world\<lparr>fault := (\<lambda>op. op = OpInsert 1)\<rparr>"

text \<open>
  The number of characters of a UTF-8 text: the bytes that do not continue a character
  (a continuation byte is one from \<open>0x80\<close> to \<open>0xBF\<close>).
\<close>

definition utf8_length :: "string \<Rightarrow> nat" where
  "utf8_length s = length (filter (\<lambda>c. \<not> (128 \<le> (of_char c :: nat) \<and> (of_char c :: nat) < 192)) s)"

text \<open>
  The name of the first bookmark of \<^verbatim>\<open>main_test.go\<close>, 19 Cyrillic letters, spaces
  and a digit in 35 bytes, and a world whose bookmark file holds this one bookmark.
\<close>

definition test_name :: string where
  "test_name =
     [CHR 0xD0, CHR 0xA2, CHR 0xD0, CHR 0xB5, CHR 0xD1, CHR 0x81, CHR 0xD1, CHR 0x82,
      CHR 0xD0, CHR 0xBE, CHR 0xD0, CHR 0xB2, CHR 0xD0, CHR 0xB0, CHR 0xD1, CHR 0x8F] @ '' '' @
     [CHR 0xD0, CHR 0xB7, CHR 0xD0, CHR 0xB0, CHR 0xD0, CHR 0xBA, CHR 0xD0, CHR 0xBB,
      CHR 0xD0, CHR 0xB0, CHR 0xD0, CHR 0xB4, CHR 0xD0, CHR 0xBA, CHR 0xD0, CHR 0xB0] @ '' 1''"

definition ex_world_test :: world where
  "ex_world_test =
     ex_world\<lparr>files := [ex_path \<mapsto> Plain (Some (JObject
       [(''roots'', JObject [(''bookmark_bar'',
           ex_folder_json ''bar''
             [BookmarkItem ''13311432144000001'' ''2'' test_name ''url''
                ''https://example.com'' []])])]))]\<rparr>"

section \<open>Properties of the extractor\<close>

lemma extractBookmarks_Cons:
  "extractBookmarks (item # items) =
     (if Type item = ''url'' then [item]
      else if Type item = ''folder'' \<and> length (Children item) > 0
        then extractBookmarks (Children item)
      else [])
     @ extractBookmarks items"
  by (cases item) simp

lemma extractBookmarks_append:
  "extractBookmarks (xs @ ys) = extractBookmarks xs @ extractBookmarks ys"
  by (induction xs) (simp_all add: extractBookmarks_Cons del: extractBookmarks.simps(2))

lemma extractBookmarks_url_leaves: "extractBookmarks items = url_leaves items"
proof (induction items rule: extractBookmarks.induct)
  case 1
  show ?case by (simp add: url_leaves_def)
next
  case (2 d i n t u cs items)
  then show ?case by (auto simp: url_leaves_def)
qed

lemma extractBookmarks_all_url: "list_all (\<lambda>b. Type b = ''url'') (extractBookmarks items)"
  by (induction items rule: extractBookmarks.induct) auto

text \<open>
  C1: for every sequence of nodes, \<open>extractBookmarks\<close> returns exactly the nodes of
  type \<open>url\<close> that are reachable through folders, in depth-first pre-order from left to
  right, each as often as it is reached (nothing is removed as a duplicate, and no folder
  is in the result); a node of type \<open>url\<close> contributes itself once, whatever children it
  has; the empty sequence yields the empty sequence.
\<close>

theorem extractBookmarks_preorder_url_leaves:
  "extractBookmarks items = url_leaves items
   \<and> list_all (\<lambda>b. Type b = ''url'') (extractBookmarks items)
   \<and> length (extractBookmarks items)
       = length (filter (\<lambda>n. Type n = ''url'') (concat (map reachable items)))
   \<and> (Type item = ''url'' \<longrightarrow> extractBookmarks (item # rest) = item # extractBookmarks rest)
   \<and> extractBookmarks [] = []"
proof (intro conjI)
  show "extractBookmarks items = url_leaves items"
    by (rule extractBookmarks_url_leaves)
  show "list_all (\<lambda>b. Type b = ''url'') (extractBookmarks items)"
    by (rule extractBookmarks_all_url)
  show "length (extractBookmarks items)
      = length (filter (\<lambda>n. Type n = ''url'') (concat (map reachable items)))"
    using extractBookmarks_url_leaves [of items] by (simp add: url_leaves_def)
  show "Type item = ''url'' \<longrightarrow> extractBookmarks (item # rest) = item # extractBookmarks rest"
    by (simp add: extractBookmarks_Cons del: extractBookmarks.simps(2))
  show "extractBookmarks [] = []"
    by simp
qed

theorem extractBookmarks_preorder_url_leaves_witness:
  "extractBookmarks [ex_F, ex_C] = [ex_A, ex_B, ex_C]
   \<and> extractBookmarks [ex_A, ex_F, ex_A] = [ex_A, ex_A, ex_B, ex_A]
   \<and> Type ex_U = ''url'' \<and> Children ex_U = [ex_B]
   \<and> extractBookmarks (ex_U # [ex_C]) = ex_U # extractBookmarks [ex_C]"
  using extractBookmarks_preorder_url_leaves [of "[ex_F, ex_C]" ex_U "[ex_C]"]
    extractBookmarks_preorder_url_leaves [of "[ex_A, ex_F, ex_A]" ex_U "[ex_C]"]
  by (simp add: url_leaves_def ex_A_def ex_B_def ex_C_def ex_F_def ex_G_def ex_U_def)

text \<open>
  C6: a folder whose sequence of children is empty, and a node whose type is neither
  \<open>folder\<close> nor \<open>url\<close>, contribute nothing, whatever their other fields hold and
  wherever they stand in the sequence; the function is total, so no error is raised.
\<close>

theorem extractBookmarks_skips_empty_and_unknown:
  "(Type item = ''folder'' \<and> Children item = []) \<or> (Type item \<noteq> ''folder'' \<and> Type item \<noteq> ''url'')
   \<Longrightarrow> extractBookmarks [item] = []
     \<and> extractBookmarks (before @ item # after)
         = extractBookmarks before @ extractBookmarks after"
  by (auto simp: extractBookmarks_append extractBookmarks_Cons simp del: extractBookmarks.simps(2))

theorem extractBookmarks_skips_empty_and_unknown_witness:
  "Type ex_E = ''folder'' \<and> Children ex_E = [] \<and> Type ex_X = ''separator''
   \<and> extractBookmarks [ex_E] = [] \<and> extractBookmarks [ex_X] = []
   \<and> extractBookmarks ([ex_A] @ ex_E # [ex_C]) = [ex_A, ex_C]
   \<and> extractBookmarks ([ex_A] @ ex_X # [ex_C]) = [ex_A, ex_C]"
  using extractBookmarks_skips_empty_and_unknown [of ex_E "[ex_A]" "[ex_C]"]
    extractBookmarks_skips_empty_and_unknown [of ex_X "[ex_A]" "[ex_C]"]
  by (simp add: ex_A_def ex_C_def ex_E_def ex_X_def)

section \<open>Properties of the store\<close>

lemma emit_simps [simp]:
  "fault (emit w es) = fault w" "files (emit w es) = files w"
  "environ (emit w es) = environ w" "filepath_Join (emit w es) = filepath_Join w"
  "trace (emit w es) = trace w @ es"
  by (simp_all add: emit_def)

lemma write_file_simps [simp]:
  "fault (write_file w p f) = fault w" "files (write_file w p f) = (files w)(p := f)"
  "environ (write_file w p f) = environ w" "filepath_Join (write_file w p f) = filepath_Join w"
  "trace (write_file w p f) = trace w"
  by (simp_all add: write_file_def)

lemma write_file_twice [simp]: "write_file (write_file w p a) p b = write_file w p b"
  by (simp add: write_file_def)

lemma write_file_same: "files w p = f \<Longrightarrow> write_file w p f = w"
  by (auto simp: write_file_def)

lemma conflicts_bookmarks:
  "columns t = bookmarks_columns \<Longrightarrow> conflicts t (n, u) r = (snd r = u)"
  by (auto simp: conflicts_def bookmarks_columns_def)

lemma insert_or_replace_bookmarks:
  "columns t = bookmarks_columns \<Longrightarrow>
   insert_or_replace t n u = t\<lparr>rows := filter (\<lambda>r. snd r \<noteq> u) (rows t) @ [(n, u)]\<rparr>"
  by (simp add: insert_or_replace_def conflicts_bookmarks)

lemma bookmarks_table_ok:
  "files w (db_path db) = Some (Sqlite (Some t)) \<Longrightarrow> columns t = bookmarks_columns \<Longrightarrow>
   bookmarks_table w db = Inr t"
  by (simp add: bookmarks_table_def bookmarks_columns_def)

lemma initDB_ok:
  assumes "\<not> fault w OpRemove" "\<not> fault w OpOpen" "\<not> fault w OpCreateTable"
  shows "initDB w p =
    (write_file w p (Some (Sqlite (Some \<lparr>columns = bookmarks_columns, rows = []\<rparr>))),
     Inr \<lparr>db_path = p\<rparr>)"
  using assms
  by (auto simp: initDB_def os_Stat_def os_Remove_def sql_Open_def db_Exec_create_def)


lemma stmt_Exec_ok:
  assumes "files w (db_path db) = Some (Sqlite (Some t))" "columns t = bookmarks_columns"
    "\<not> fault w (OpInsert k)"
  shows "stmt_Exec w db k n u =
    Inr (write_file w (db_path db)
      (Some (Sqlite (Some (t\<lparr>rows := filter (\<lambda>r. snd r \<noteq> u) (rows t) @ [(n, u)]\<rparr>)))))"
  using assms
  by (simp add: stmt_Exec_def bookmarks_table_ok insert_or_replace_bookmarks)

lemma upsert_Nil: "upsert rs [] = rs"
  by (simp add: upsert_def)

lemma upsert_Cons:
  "upsert rs (b # bs) = upsert (filter (\<lambda>r. snd r \<noteq> URL b) rs @ [(Name b, URL b)]) bs"
  by (simp add: upsert_def)

lemma upsert_snoc:
  "upsert rs (bs @ [b]) = filter (\<lambda>r. snd r \<noteq> URL b) (upsert rs bs) @ [(Name b, URL b)]"
  by (simp add: upsert_def)

text \<open>The loop writes the net effect of the batch when no insert fails.\<close>

lemma saveBookmarksToDB_loop_ok:
  assumes "files w (db_path db) = Some (Sqlite (Some t))" "columns t = bookmarks_columns"
    "\<forall>j. k \<le> j \<and> j < k + length bs \<longrightarrow> \<not> fault w (OpInsert j)"
  shows "saveBookmarksToDB_loop w db k bs =
    (write_file w (db_path db) (Some (Sqlite (Some (t\<lparr>rows := upsert (rows t) bs\<rparr>)))), None)"
  using assms
proof (induction bs arbitrary: w k t)
  case Nil
  then show ?case by (simp add: upsert_Nil write_file_same)
next
  case (Cons b bs)
  let ?t = "t\<lparr>rows := filter (\<lambda>r. snd r \<noteq> URL b) (rows t) @ [(Name b, URL b)]\<rparr>"
  let ?w = "write_file w (db_path db) (Some (Sqlite (Some ?t)))"
  have ex: "stmt_Exec w db k (Name b) (URL b) = Inr ?w"
    using Cons.prems by (intro stmt_Exec_ok) auto
  have "saveBookmarksToDB_loop ?w db (Suc k) bs =
    (write_file ?w (db_path db) (Some (Sqlite (Some (?t\<lparr>rows := upsert (rows ?t) bs\<rparr>)))), None)"
    using Cons.prems by (intro Cons.IH) auto
  then show ?case
    by (simp add: ex upsert_Cons)
qed

lemma saveBookmarksToDB_ok:
  assumes "files w (db_path db) = Some (Sqlite (Some t))" "columns t = bookmarks_columns"
    "\<not> fault w OpPrepare" "\<forall>j < length bs. \<not> fault w (OpInsert j)"
  shows "saveBookmarksToDB w db bs =
    (write_file w (db_path db) (Some (Sqlite (Some (t\<lparr>rows := upsert (rows t) bs\<rparr>)))), None)"
proof -
  have "db_Prepare w db = Inr ()"
    using assms by (simp add: db_Prepare_def)
  moreover have "saveBookmarksToDB_loop w db 0 bs =
    (write_file w (db_path db) (Some (Sqlite (Some (t\<lparr>rows := upsert (rows t) bs\<rparr>)))), None)"
    using assms by (intro saveBookmarksToDB_loop_ok) auto
  ultimately show ?thesis by (simp add: saveBookmarksToDB_def)
qed

lemma GetAllBookmarks_loop_ok:
  assumes "\<forall>j. \<not> fault w (OpNext j) \<and> \<not> fault w (OpScan j)"
  shows "GetAllBookmarks_loop w k rs acc =
    Inr (acc @ map (\<lambda>r. \<lparr>Name_r = fst r, URL_r = snd r\<rparr>) rs)"
  using assms by (induction rs arbitrary: k acc) auto

lemma GetAllBookmarks_ok:
  assumes "files w (db_path db) = Some (Sqlite (Some t))" "columns t = bookmarks_columns"
    "\<not> fault w OpQuery" "\<forall>j. \<not> fault w (OpNext j) \<and> \<not> fault w (OpScan j)"
  shows "GetAllBookmarks w db = Inr (map (\<lambda>r. \<lparr>Name_r = fst r, URL_r = snd r\<rparr>) (rows t))"
  using assms by (simp add: GetAllBookmarks_def bookmarks_table_ok GetAllBookmarks_loop_ok)

text \<open>
  One run of the store in a world without failures: whatever is at the path, the query
  after the batch yields \<open>stored bs\<close>.
\<close>

lemma store_run:
  assumes "\<forall>op. \<not> fault w op"
  shows "\<exists>w1 db w2. initDB w p = (w1, Inr db) \<and> saveBookmarksToDB w1 db bs = (w2, None)
    \<and> GetAllBookmarks w2 db = Inr (stored bs) \<and> (\<forall>op. \<not> fault w2 op)
    \<and> db_path db = p
    \<and> files w2 p = Some (Sqlite (Some \<lparr>columns = bookmarks_columns, rows = upsert [] bs\<rparr>))
    \<and> trace w2 = trace w"
proof -
  let ?empty = "\<lparr>columns = bookmarks_columns, rows = []\<rparr>"
  let ?db = "\<lparr>db_path = p\<rparr>"
  let ?w1 = "write_file w p (Some (Sqlite (Some ?empty)))"
  let ?t = "?empty\<lparr>rows := upsert (rows ?empty) bs\<rparr>"
  let ?w2 = "write_file ?w1 (db_path ?db) (Some (Sqlite (Some ?t)))"
  have 1: "initDB w p = (?w1, Inr ?db)"
    using assms by (simp add: initDB_ok)
  have 2: "saveBookmarksToDB ?w1 ?db bs = (?w2, None)"
    using assms by (intro saveBookmarksToDB_ok) auto
  have 3: "GetAllBookmarks ?w2 ?db = Inr (map (\<lambda>r. \<lparr>Name_r = fst r, URL_r = snd r\<rparr>) (rows ?t))"
    using assms by (intro GetAllBookmarks_ok) auto
  show ?thesis
    using 1 2 3 assms by (auto simp: stored_def)
qed

lemma snd_filter_neq: "snd ` set (filter (\<lambda>r. snd r \<noteq> u) rs) = snd ` set rs - {u}"
  by (induction rs) auto

lemma upsert_urls: "snd ` set (upsert rs bs) = snd ` set rs \<union> URL ` set bs"
proof (induction bs rule: rev_induct)
  case Nil
  show ?case by (simp add: upsert_Nil)
next
  case (snoc b bs)
  have "snd ` set (upsert rs (bs @ [b])) = (snd ` set (upsert rs bs) - {URL b}) \<union> {URL b}"
    unfolding upsert_snoc set_append image_Un snd_filter_neq by simp
  also have "\<dots> = snd ` set rs \<union> URL ` set (bs @ [b])"
    using snoc.IH by auto
  finally show ?case .
qed

lemma distinct_map_filter_snd:
  "distinct (map snd rs) \<Longrightarrow> distinct (map snd (filter P rs))"
  by (induction rs) auto

lemma upsert_distinct: "distinct (map snd rs) \<Longrightarrow> distinct (map snd (upsert rs bs))"
  by (induction bs rule: rev_induct)
     (auto simp: upsert_snoc upsert_Nil distinct_map_filter_snd)

lemma upsert_last:
  "(n, u) \<in> set (upsert rs bs) \<Longrightarrow> u \<in> URL ` set bs \<Longrightarrow>
   n = Name (last (filter (\<lambda>b. URL b = u) bs))"
proof (induction bs arbitrary: n rule: rev_induct)
  case Nil
  then show ?case by simp
next
  case (snoc b bs)
  show ?case
  proof (cases "URL b = u")
    case True
    with snoc.prems(1) show ?thesis by (auto simp: upsert_snoc)
  next
    case False
    with snoc.prems have "(n, u) \<in> set (upsert rs bs)" "u \<in> URL ` set bs"
      by (auto simp: upsert_snoc)
    then have "n = Name (last (filter (\<lambda>b. URL b = u) bs))" by (rule snoc.IH)
    with False show ?thesis by simp
  qed
qed

lemma stored_urls: "set (map URL_r (stored bs)) = set (map URL bs)"
  using upsert_urls [of "[]" bs] by (simp add: stored_def comp_def)

lemma stored_distinct: "distinct (map URL_r (stored bs))"
  using upsert_distinct [of "[]" bs] by (simp add: stored_def comp_def)

lemma stored_last:
  assumes "r \<in> set (stored bs)"
  shows "Name_r r = Name (last (filter (\<lambda>b. URL b = URL_r r) bs))"
proof -
  from assms obtain n u where r: "r = \<lparr>Name_r = n, URL_r = u\<rparr>" and nu: "(n, u) \<in> set (upsert [] bs)"
    by (auto simp: stored_def)
  from nu have "u \<in> snd ` set (upsert [] bs)" by force
  then have "u \<in> URL ` set bs" by (simp add: upsert_urls)
  with nu have "n = Name (last (filter (\<lambda>b. URL b = u) bs))" by (rule upsert_last)
  then show ?thesis by (simp add: r)
qed

text \<open>
  C2: in a run in which no operation fails, \<open>initDB\<close>, then \<open>saveBookmarksToDB\<close> of
  the records, then \<open>GetAllBookmarks\<close> succeed, and the records returned have exactly the
  urls of the batch, each url once, with the name of the last record of the batch that
  has this url.
\<close>

theorem upsert_last_occurrence_wins:
  assumes "\<forall>op. \<not> fault w op"
  shows "\<exists>w1 db w2 rs. initDB w path = (w1, Inr db)
    \<and> saveBookmarksToDB w1 db records = (w2, None)
    \<and> GetAllBookmarks w2 db = Inr rs
    \<and> rs = stored records
    \<and> set (map URL_r rs) = set (map URL records)
    \<and> distinct (map URL_r rs)
    \<and> (\<forall>r \<in> set rs. Name_r r = Name (last (filter (\<lambda>b. URL b = URL_r r) records)))"
proof -
  from store_run [OF assms, of path records]
  obtain w1 db w2 where "initDB w path = (w1, Inr db)"
    "saveBookmarksToDB w1 db records = (w2, None)"
    "GetAllBookmarks w2 db = Inr (stored records)"
    by blast
  then show ?thesis
    using stored_urls [of records] stored_distinct [of records] stored_last [of _ records]
    by blast
qed

theorem upsert_last_occurrence_wins_witness:
  "(\<forall>op. \<not> fault ex_world op)
   \<and> (\<exists>w1 db w2. initDB ex_world ''bookmarks.db'' = (w1, Inr db)
        \<and> saveBookmarksToDB w1 db
             [BookmarkItem [] [] ''X1'' ''url'' ''http://x'' [],
              BookmarkItem [] [] ''X2'' ''url'' ''http://x'' []] = (w2, None)
        \<and> GetAllBookmarks w2 db = Inr [\<lparr>Name_r = ''X2'', URL_r = ''http://x''\<rparr>])"
proof -
  have nf: "\<forall>op. \<not> fault ex_world op"
    by (simp add: ex_world_def)
  show ?thesis
    using nf upsert_last_occurrence_wins [OF nf, of "''bookmarks.db''"
        "[BookmarkItem [] [] ''X1'' ''url'' ''http://x'' [],
          BookmarkItem [] [] ''X2'' ''url'' ''http://x'' []]"]
    by (auto simp: stored_def upsert_def)
qed



lemma bookmarks_table_files:
  "bookmarks_table w db = Inr t \<Longrightarrow> files w (db_path db) = Some (Sqlite (Some t))"
  by (auto simp: bookmarks_table_def split: option.splits filedata.splits if_splits)

lemma bookmarks_table_write:
  assumes "bookmarks_table w db = Inr t" "columns t' = columns t"
  shows "bookmarks_table (write_file w (db_path db) (Some (Sqlite (Some t')))) db = Inr t'"
  using assms
  by (auto simp: bookmarks_table_def split: option.splits filedata.splits if_splits)

lemma insert_all_Nil: "insert_all t [] = t"
  by (simp add: insert_all_def)

lemma insert_all_Cons:
  "insert_all t (b # bs) = insert_all (insert_or_replace t (Name b) (URL b)) bs"
  by (simp add: insert_all_def)

lemma insert_all_upsert:
  "columns t = bookmarks_columns \<Longrightarrow> insert_all t bs = t\<lparr>rows := upsert (rows t) bs\<rparr>"
proof (induction bs arbitrary: t)
  case Nil
  show ?case by (simp add: insert_all_Nil upsert_Nil)
next
  case (Cons b bs)
  let ?t = "t\<lparr>rows := filter (\<lambda>r. snd r \<noteq> URL b) (rows t) @ [(Name b, URL b)]\<rparr>"
  have "insert_all t (b # bs) = insert_all ?t bs"
    using Cons.prems by (simp add: insert_all_Cons insert_or_replace_bookmarks)
  also have "\<dots> = ?t\<lparr>rows := upsert (rows ?t) bs\<rparr>"
    using Cons.prems by (intro Cons.IH) simp
  finally show ?case by (simp add: upsert_Cons)
qed

text \<open>
  The loop over a batch that starts with records \<open>xs\<close> whose inserts do not fail: it
  writes the table after the inserts of \<open>xs\<close> and goes on with the rest of the batch.
\<close>

lemma saveBookmarksToDB_loop_prefix:
  assumes "bookmarks_table w db = Inr t"
    "\<forall>j. k \<le> j \<and> j < k + length xs \<longrightarrow> \<not> fault w (OpInsert j)"
  shows "saveBookmarksToDB_loop w db k (xs @ rest)
    = saveBookmarksToDB_loop
        (write_file w (db_path db) (Some (Sqlite (Some (insert_all t xs))))) db
        (k + length xs) rest"
  using assms
proof (induction xs arbitrary: w k t)
  case Nil
  then show ?case
    by (simp add: insert_all_Nil write_file_same bookmarks_table_files)
next
  case (Cons b xs)
  let ?t = "insert_or_replace t (Name b) (URL b)"
  let ?w = "write_file w (db_path db) (Some (Sqlite (Some ?t)))"
  have ex: "stmt_Exec w db k (Name b) (URL b) = Inr ?w"
    using Cons.prems by (simp add: stmt_Exec_def)
  have "saveBookmarksToDB_loop ?w db (Suc k) (xs @ rest)
    = saveBookmarksToDB_loop
        (write_file ?w (db_path db) (Some (Sqlite (Some (insert_all ?t xs))))) db
        (Suc k + length xs) rest"
  proof (rule Cons.IH)
    show "bookmarks_table ?w db = Inr ?t"
      using Cons.prems(1) by (rule bookmarks_table_write) (simp add: insert_or_replace_def)
    show "\<forall>j. Suc k \<le> j \<and> j < Suc k + length xs \<longrightarrow> \<not> fault ?w (OpInsert j)"
      using Cons.prems(2) by simp
  qed
  then show ?case
    by (simp add: ex insert_all_Cons)
qed

lemma saveBookmarksToDB_prepared:
  "\<not> fault w OpPrepare \<Longrightarrow> saveBookmarksToDB w db bs = saveBookmarksToDB_loop w db 0 bs"
  by (simp add: saveBookmarksToDB_def db_Prepare_def)

text \<open>
  C8: \<open>saveBookmarksToDB\<close> writes record by record and stops at the first failure.
  From a database whose table is \<open>t\<close>, when the inserts of the first \<open>k\<close> records do
  not fail and the insert of the next one does, the function returns the wrapped error
  and leaves in the file the table after the inserts of exactly these \<open>k\<close> records,
  whatever records follow: they are not attempted, and nothing is rolled back. When the
  database has no usable table, the first insert fails and nothing is written. When no
  insert fails, the table after all inserts is written and no error is returned; an
  empty batch returns no error. For a table with the primary key \<open>url\<close> the table after
  the inserts is the last-occurrence-wins content.
\<close>

theorem saveBookmarksToDB_stops_at_first_failure:
  "(\<not> fault w OpPrepare \<and> bookmarks_table w db = Inr t \<and> k < length bs
      \<and> (\<forall>j < k. \<not> fault w (OpInsert j)) \<and> fault w (OpInsert k)
    \<longrightarrow> saveBookmarksToDB w db bs
          = (write_file w (db_path db) (Some (Sqlite (Some (insert_all t (take k bs))))),
             Some (ErrInsert (Fault (OpInsert k))))
        \<and> (\<forall>others. saveBookmarksToDB w db (take (Suc k) bs @ others)
              = (write_file w (db_path db) (Some (Sqlite (Some (insert_all t (take k bs))))),
                 Some (ErrInsert (Fault (OpInsert k))))))
   \<and> (\<not> fault w OpPrepare \<and> bookmarks_table w db = Inl c
    \<longrightarrow> saveBookmarksToDB w db (b # bs)
          = (w, Some (ErrInsert (if fault w (OpInsert 0) then Fault (OpInsert 0) else c))))
   \<and> (\<not> fault w OpPrepare \<and> bookmarks_table w db = Inr t
      \<and> (\<forall>j < length bs. \<not> fault w (OpInsert j))
    \<longrightarrow> saveBookmarksToDB w db bs
          = (write_file w (db_path db) (Some (Sqlite (Some (insert_all t bs)))), None))
   \<and> (\<not> fault w OpPrepare \<longrightarrow> saveBookmarksToDB w db [] = (w, None))
   \<and> (columns t = bookmarks_columns \<longrightarrow>
        insert_all t bs = t\<lparr>rows := upsert (rows t) bs\<rparr>
        \<and> URL ` set bs \<subseteq> snd ` set (rows (insert_all t bs)))"
proof (intro conjI impI allI)
  assume a: "\<not> fault w OpPrepare \<and> bookmarks_table w db = Inr t \<and> k < length bs
      \<and> (\<forall>j < k. \<not> fault w (OpInsert j)) \<and> fault w (OpInsert k)"
  let ?wk = "write_file w (db_path db) (Some (Sqlite (Some (insert_all t (take k bs)))))"
  have stop: "saveBookmarksToDB w db (take k bs @ bs ! k # rest)
      = (?wk, Some (ErrInsert (Fault (OpInsert k))))" for rest
  proof -
    have "saveBookmarksToDB_loop w db 0 (take k bs @ bs ! k # rest)
        = saveBookmarksToDB_loop ?wk db (0 + length (take k bs)) (bs ! k # rest)"
      using a by (intro saveBookmarksToDB_loop_prefix) auto
    also have "\<dots> = (?wk, Some (ErrInsert (Fault (OpInsert k))))"
      using a by (simp add: stmt_Exec_def min_def)
    finally show ?thesis
      using a by (simp add: saveBookmarksToDB_prepared)
  qed
  have k: "k < length bs" using a by simp
  have "bs = take k bs @ bs ! k # drop (Suc k) bs"
    using k by (simp add: id_take_nth_drop)
  then show "saveBookmarksToDB w db bs = (?wk, Some (ErrInsert (Fault (OpInsert k))))"
    using stop [of "drop (Suc k) bs"] by simp
  fix others
  have "take (Suc k) bs @ others = take k bs @ bs ! k # others"
    using k by (simp add: take_Suc_conv_app_nth)
  then show "saveBookmarksToDB w db (take (Suc k) bs @ others)
      = (?wk, Some (ErrInsert (Fault (OpInsert k))))"
    using stop [of others] by simp
next
  assume "\<not> fault w OpPrepare \<and> bookmarks_table w db = Inl c"
  then show "saveBookmarksToDB w db (b # bs)
      = (w, Some (ErrInsert (if fault w (OpInsert 0) then Fault (OpInsert 0) else c)))"
    by (simp add: saveBookmarksToDB_prepared stmt_Exec_def)
next
  assume a: "\<not> fault w OpPrepare \<and> bookmarks_table w db = Inr t
      \<and> (\<forall>j < length bs. \<not> fault w (OpInsert j))"
  have "saveBookmarksToDB_loop w db 0 (bs @ [])
      = saveBookmarksToDB_loop
          (write_file w (db_path db) (Some (Sqlite (Some (insert_all t bs))))) db
          (0 + length bs) []"
    using a by (intro saveBookmarksToDB_loop_prefix) auto
  then show "saveBookmarksToDB w db bs
      = (write_file w (db_path db) (Some (Sqlite (Some (insert_all t bs)))), None)"
    using a by (simp add: saveBookmarksToDB_prepared)
next
  assume "\<not> fault w OpPrepare"
  then show "saveBookmarksToDB w db [] = (w, None)"
    by (simp add: saveBookmarksToDB_prepared)
next
  assume c: "columns t = bookmarks_columns"
  then show u: "insert_all t bs = t\<lparr>rows := upsert (rows t) bs\<rparr>"
    by (rule insert_all_upsert)
  show "URL ` set bs \<subseteq> snd ` set (rows (insert_all t bs))"
    unfolding u using upsert_urls [of "rows t" bs] by simp
qed

theorem saveBookmarksToDB_stops_at_first_failure_witness:
  "bookmarks_table ex_world_fail1 \<lparr>db_path = ''bookmarks.db''\<rparr>
     = Inr \<lparr>columns = bookmarks_columns, rows = [(''Old'', ''http://old'')]\<rparr>
   \<and> fault ex_world_fail1 (OpInsert 1) \<and> \<not> fault ex_world_fail1 (OpInsert 0)
   \<and> saveBookmarksToDB ex_world_fail1 \<lparr>db_path = ''bookmarks.db''\<rparr> [ex_A, ex_B, ex_C]
       = (write_file ex_world_fail1 ''bookmarks.db'' (Some (Sqlite (Some
            \<lparr>columns = bookmarks_columns,
             rows = [(''Old'', ''http://old''), (''A'', ''http://a'')]\<rparr>))),
          Some (ErrInsert (Fault (OpInsert 1))))
   \<and> saveBookmarksToDB ex_world_fail1 \<lparr>db_path = ''bookmarks.db''\<rparr> [ex_A, ex_B, ex_U, ex_E]
       = (write_file ex_world_fail1 ''bookmarks.db'' (Some (Sqlite (Some
            \<lparr>columns = bookmarks_columns,
             rows = [(''Old'', ''http://old''), (''A'', ''http://a'')]\<rparr>))),
          Some (ErrInsert (Fault (OpInsert 1))))
   \<and> saveBookmarksToDB ex_world \<lparr>db_path = ''bookmarks.db''\<rparr> [ex_A, ex_B, ex_A2]
       = (write_file ex_world ''bookmarks.db'' (Some (Sqlite (Some
            \<lparr>columns = bookmarks_columns,
             rows = [(''Old'', ''http://old''), (''B'', ''http://b''), (''A2'', ''http://a'')]\<rparr>))),
          None)
   \<and> bookmarks_table (write_file ex_world ''bookmarks.db'' (Some (Sqlite None)))
        \<lparr>db_path = ''bookmarks.db''\<rparr>
       = Inl NoSuchTable
   \<and> saveBookmarksToDB (write_file ex_world ''bookmarks.db'' (Some (Sqlite None)))
        \<lparr>db_path = ''bookmarks.db''\<rparr> [ex_A, ex_B]
       = (write_file ex_world ''bookmarks.db'' (Some (Sqlite None)), Some (ErrInsert NoSuchTable))
   \<and> saveBookmarksToDB (write_file ex_world ''bookmarks.db'' (Some (Sqlite None)))
        \<lparr>db_path = ''bookmarks.db''\<rparr> []
       = (write_file ex_world ''bookmarks.db'' (Some (Sqlite None)), None)"
proof -
  let ?db = "\<lparr>db_path = ''bookmarks.db''\<rparr>"
  let ?old = "\<lparr>columns = bookmarks_columns, rows = [(''Old'', ''http://old'')]\<rparr>"
  let ?bare = "write_file ex_world ''bookmarks.db'' (Some (Sqlite None))"
  have t1: "bookmarks_table ex_world_fail1 ?db = Inr ?old"
    and t: "bookmarks_table ex_world ?db = Inr ?old"
    by (simp_all add: bookmarks_table_def bookmarks_columns_def ex_world_fail1_def ex_world_def
        ex_path_def)
  have f1: "\<not> fault ex_world_fail1 OpPrepare" "fault ex_world_fail1 (OpInsert 1)"
    "\<not> fault ex_world_fail1 (OpInsert 0)" "\<forall>j < 1. \<not> fault ex_world_fail1 (OpInsert j)"
    by (simp_all add: ex_world_fail1_def ex_world_def)
  have f: "\<not> fault ex_world OpPrepare" "\<forall>j < length [ex_A, ex_B, ex_A2]. \<not> fault ex_world (OpInsert j)"
    "\<not> fault ?bare OpPrepare" "\<not> fault ?bare (OpInsert 0)"
    by (simp_all add: ex_world_def)
  have g: "bookmarks_table ?bare ?db = Inl NoSuchTable"
    by (simp add: bookmarks_table_def)
  have c: "columns ?old = bookmarks_columns" by simp
  have i1: "insert_all ?old (take 1 [ex_A, ex_B, ex_C])
      = \<lparr>columns = bookmarks_columns, rows = [(''Old'', ''http://old''), (''A'', ''http://a'')]\<rparr>"
    using saveBookmarksToDB_stops_at_first_failure
      [where t = ?old and bs = "take 1 [ex_A, ex_B, ex_C]"] c
    by (simp add: upsert_def ex_A_def)
  have i2: "insert_all ?old [ex_A, ex_B, ex_A2]
      = \<lparr>columns = bookmarks_columns,
         rows = [(''Old'', ''http://old''), (''B'', ''http://b''), (''A2'', ''http://a'')]\<rparr>"
    using saveBookmarksToDB_stops_at_first_failure
      [where t = ?old and bs = "[ex_A, ex_B, ex_A2]"] c
    by (simp add: upsert_def ex_A_def ex_B_def ex_A2_def)
  have 1: "saveBookmarksToDB ex_world_fail1 ?db [ex_A, ex_B, ex_C]
       = (write_file ex_world_fail1 ''bookmarks.db'' (Some (Sqlite (Some
            \<lparr>columns = bookmarks_columns,
             rows = [(''Old'', ''http://old''), (''A'', ''http://a'')]\<rparr>))),
          Some (ErrInsert (Fault (OpInsert 1))))"
    using saveBookmarksToDB_stops_at_first_failure
      [of ex_world_fail1 ?db ?old 1 "[ex_A, ex_B, ex_C]"] t1 f1
    unfolding i1 by simp
  have 5: "saveBookmarksToDB ex_world_fail1 ?db [ex_A, ex_B, ex_U, ex_E]
       = (write_file ex_world_fail1 ''bookmarks.db'' (Some (Sqlite (Some
            \<lparr>columns = bookmarks_columns,
             rows = [(''Old'', ''http://old''), (''A'', ''http://a'')]\<rparr>))),
          Some (ErrInsert (Fault (OpInsert 1))))"
    using saveBookmarksToDB_stops_at_first_failure
      [where w = ex_world_fail1 and db = ?db and t = ?old and k = 1
        and bs = "[ex_A, ex_B, ex_C]", THEN conjunct1] t1 f1
    unfolding i1 by simp
  have 2: "saveBookmarksToDB ex_world ?db [ex_A, ex_B, ex_A2]
       = (write_file ex_world ''bookmarks.db'' (Some (Sqlite (Some
            \<lparr>columns = bookmarks_columns,
             rows = [(''Old'', ''http://old''), (''B'', ''http://b''), (''A2'', ''http://a'')]\<rparr>))),
          None)"
    using saveBookmarksToDB_stops_at_first_failure
      [where w = ex_world and db = ?db and t = ?old and bs = "[ex_A, ex_B, ex_A2]"] t f
    unfolding i2 by simp
  have 3: "saveBookmarksToDB ?bare ?db [ex_A, ex_B] = (?bare, Some (ErrInsert NoSuchTable))"
    using saveBookmarksToDB_stops_at_first_failure
      [where w = ?bare and db = ?db and bs = "[ex_B]" and c = NoSuchTable and b = ex_A] g f
    by simp
  have 4: "saveBookmarksToDB ?bare ?db [] = (?bare, None)"
    using saveBookmarksToDB_stops_at_first_failure [of ?bare ?db] f
    by simp
  from t1 f1 1 5 2 g 3 4 show ?thesis by simp
qed

text \<open>
  C10: the url of a node is not looked at. A node whose type is exactly \<open>url\<close> is
  emitted whatever its url is, also when the url is the empty string, and in a run
  without failures the empty string becomes the key of a stored row. The type is
  compared byte for byte: a node of type \<open>URL\<close> or \<open>Url\<close> contributes nothing.
\<close>

theorem extractBookmarks_no_url_validation:
  "(Type item = ''url'' \<longrightarrow> extractBookmarks (item # rest) = item # extractBookmarks rest)
   \<and> extractBookmarks (BookmarkItem d i n ''url'' [] cs # rest)
       = BookmarkItem d i n ''url'' [] cs # extractBookmarks rest
   \<and> (Type item = ''URL'' \<or> Type item = ''Url'' \<longrightarrow>
        extractBookmarks (item # rest) = extractBookmarks rest)
   \<and> ((\<forall>op. \<not> fault w op) \<longrightarrow>
        (\<exists>w1 db w2. initDB w p = (w1, Inr db)
           \<and> saveBookmarksToDB w1 db (extractBookmarks [BookmarkItem d i n ''url'' [] cs])
               = (w2, None)
           \<and> files w2 p = Some (Sqlite (Some \<lparr>columns = bookmarks_columns, rows = [(n, [])]\<rparr>))
           \<and> GetAllBookmarks w2 db = Inr [\<lparr>Name_r = n, URL_r = []\<rparr>]))"
proof (intro conjI impI)
  show "Type item = ''url'' \<Longrightarrow> extractBookmarks (item # rest) = item # extractBookmarks rest"
    by (simp add: extractBookmarks_Cons del: extractBookmarks.simps(2))
  show "extractBookmarks (BookmarkItem d i n ''url'' [] cs # rest)
       = BookmarkItem d i n ''url'' [] cs # extractBookmarks rest"
    by simp
  show "Type item = ''URL'' \<or> Type item = ''Url'' \<Longrightarrow>
        extractBookmarks (item # rest) = extractBookmarks rest"
    by (auto simp: extractBookmarks_Cons simp del: extractBookmarks.simps(2))
next
  let ?b = "BookmarkItem d i n ''url'' [] cs"
  assume nf: "\<forall>op. \<not> fault w op"
  have e: "extractBookmarks [?b] = [?b]" by simp
  have u: "upsert [] [?b] = [(n, [])]" by (simp add: upsert_def)
  from store_run [OF nf, of p "[?b]"]
  show "\<exists>w1 db w2. initDB w p = (w1, Inr db)
           \<and> saveBookmarksToDB w1 db (extractBookmarks [?b]) = (w2, None)
           \<and> files w2 p = Some (Sqlite (Some \<lparr>columns = bookmarks_columns, rows = [(n, [])]\<rparr>))
           \<and> GetAllBookmarks w2 db = Inr [\<lparr>Name_r = n, URL_r = []\<rparr>]"
    unfolding e by (auto simp: stored_def u)
qed

theorem extractBookmarks_no_url_validation_witness:
  "extractBookmarks [BookmarkItem ''1'' ''2'' ''No address'' ''url'' [] [], ex_C]
     = [BookmarkItem ''1'' ''2'' ''No address'' ''url'' [] [], ex_C]
   \<and> extractBookmarks [BookmarkItem ''1'' ''2'' ''Upper'' ''URL'' ''http://a'' [], ex_C] = [ex_C]
   \<and> extractBookmarks [BookmarkItem ''1'' ''2'' ''Mixed'' ''Url'' ''http://a'' [], ex_C] = [ex_C]
   \<and> (\<forall>op. \<not> fault ex_world op)
   \<and> (\<exists>w1 db w2. initDB ex_world ''bookmarks.db'' = (w1, Inr db)
         \<and> saveBookmarksToDB w1 db
              (extractBookmarks [BookmarkItem ''1'' ''2'' ''No address'' ''url'' [] []])
             = (w2, None)
         \<and> GetAllBookmarks w2 db = Inr [\<lparr>Name_r = ''No address'', URL_r = []\<rparr>])"
proof -
  have nf: "\<forall>op. \<not> fault ex_world op"
    by (simp add: ex_world_def)
  have c: "extractBookmarks [ex_C] = [ex_C]"
    by (simp add: ex_C_def)
  have 1: "extractBookmarks [BookmarkItem ''1'' ''2'' ''No address'' ''url'' [] [], ex_C]
     = [BookmarkItem ''1'' ''2'' ''No address'' ''url'' [] [], ex_C]"
    using extractBookmarks_no_url_validation
      [of "BookmarkItem ''1'' ''2'' ''No address'' ''url'' [] []" "[ex_C]"] c
    by simp
  have 2: "extractBookmarks [BookmarkItem ''1'' ''2'' ''Upper'' ''URL'' ''http://a'' [], ex_C] = [ex_C]"
    using extractBookmarks_no_url_validation
      [of "BookmarkItem ''1'' ''2'' ''Upper'' ''URL'' ''http://a'' []" "[ex_C]"] c
    by simp
  have 3: "extractBookmarks [BookmarkItem ''1'' ''2'' ''Mixed'' ''Url'' ''http://a'' [], ex_C] = [ex_C]"
    using extractBookmarks_no_url_validation
      [of "BookmarkItem ''1'' ''2'' ''Mixed'' ''Url'' ''http://a'' []" "[ex_C]"] c
    by simp
  have 4: "\<exists>w1 db w2. initDB ex_world ''bookmarks.db'' = (w1, Inr db)
         \<and> saveBookmarksToDB w1 db
              (extractBookmarks [BookmarkItem ''1'' ''2'' ''No address'' ''url'' [] []])
             = (w2, None)
         \<and> GetAllBookmarks w2 db = Inr [\<lparr>Name_r = ''No address'', URL_r = []\<rparr>]"
    using extractBookmarks_no_url_validation
      [of undefined undefined "''1''" "''2''" "''No address''" "[]" ex_world "''bookmarks.db''"] nf
    by blast
  from 1 2 3 4 nf show ?thesis by blast
qed

section \<open>Properties of the driver\<close>

lemma db_Close_simps [simp]:
  "fault (db_Close w db) = fault w" "files (db_Close w db) = files w"
  "trace (db_Close w db) = trace w @ [DbClose (db_path db)]"
  by (simp_all add: db_Close_def)

lemma parseBookmarks_emit [simp]: "parseBookmarks (emit w es) p = parseBookmarks w p"
  by (simp add: parseBookmarks_def os_ReadFile_def)

text \<open>
  A run in which the bookmark file is found and decoded and no operation fails: what it
  prints, and what it leaves in the database file.
\<close>

lemma main_ok:
  assumes nf: "\<forall>op. \<not> fault w op"
    and gp: "getBookmarksFilePath w = Inr path"
    and pb: "parseBookmarks w path = Inr b"
    and a: "a = extractBookmarks (Children_f (BookmarkBar (Roots b)))
            @ extractBookmarks (Children_f (Other (Roots b)))
            @ extractBookmarks (Children_f (Synced (Roots b)))"
  shows "trace (main w) = trace w
           @ [Printf fmt_found [S path], Printf fmt_saved [D (int (length a)), S ''bookmarks.db'']]
           @ listing (stored a) @ [DbClose ''bookmarks.db'', Exit 0]"
    and "files (main w) = (files w)(''bookmarks.db'' \<mapsto>
           Sqlite (Some \<lparr>columns = bookmarks_columns, rows = upsert [] a\<rparr>))"
proof -
  let ?p = "''bookmarks.db''"
  let ?db = "\<lparr>db_path = ?p\<rparr>"
  let ?empty = "\<lparr>columns = bookmarks_columns, rows = []\<rparr>"
  let ?t = "\<lparr>columns = bookmarks_columns, rows = upsert [] a\<rparr>"
  let ?w1 = "emit w [Printf fmt_found [S path]]"
  let ?w2 = "write_file ?w1 ?p (Some (Sqlite (Some ?empty)))"
  let ?w3 = "write_file ?w2 ?p (Some (Sqlite (Some ?t)))"
  let ?w4 = "emit ?w3 [Printf fmt_saved [D (int (length a)), S ?p]]"
  have 1: "initDB ?w1 ?p = (?w2, Inr ?db)"
    using nf by (simp add: initDB_ok)
  have "saveBookmarksToDB ?w2 ?db a
      = (write_file ?w2 (db_path ?db) (Some (Sqlite (Some (?empty\<lparr>rows := upsert (rows ?empty) a\<rparr>)))),
         None)"
  proof (rule saveBookmarksToDB_ok)
    show "files ?w2 (db_path ?db) = Some (Sqlite (Some ?empty))" by simp
    show "columns ?empty = bookmarks_columns" by simp
    show "\<not> fault ?w2 OpPrepare" using nf by simp
    show "\<forall>j<length a. \<not> fault ?w2 (OpInsert j)" using nf by simp
  qed
  then have 2: "saveBookmarksToDB ?w2 ?db a = (?w3, None)"
    by simp
  have "GetAllBookmarks ?w4 ?db
      = Inr (map (\<lambda>r. \<lparr>Name_r = fst r, URL_r = snd r\<rparr>) (rows ?t))"
  proof (rule GetAllBookmarks_ok)
    show "files ?w4 (db_path ?db) = Some (Sqlite (Some ?t))" by simp
    show "columns ?t = bookmarks_columns" by simp
    show "\<not> fault ?w4 OpQuery" using nf by simp
    show "\<forall>j. \<not> fault ?w4 (OpNext j) \<and> \<not> fault ?w4 (OpScan j)" using nf by simp
  qed
  then have 3: "PrintBookmarks ?w4 ?db = (emit ?w4 (listing (stored a)), None)"
    by (simp add: PrintBookmarks_def stored_def)
  have m: "main w = emit (db_Close (emit ?w4 (listing (stored a))) ?db) [Exit 0]"
    unfolding main_def gp
    by (simp add: pb Let_def 1 a [symmetric] 2 3 del: write_file_twice)
  show "trace (main w) = trace w
           @ [Printf fmt_found [S path], Printf fmt_saved [D (int (length a)), S ''bookmarks.db'']]
           @ listing (stored a) @ [DbClose ''bookmarks.db'', Exit 0]"
    unfolding m by simp
  show "files (main w) = (files w)(''bookmarks.db'' \<mapsto>
           Sqlite (Some \<lparr>columns = bookmarks_columns, rows = upsert [] a\<rparr>))"
    unfolding m by simp
qed

lemma ex_world_no_fault: "\<forall>op. \<not> fault ex_world op"
  by (simp add: ex_world_def)

lemma ex_world_path: "getBookmarksFilePath ex_world = Inr ex_path"
  by code_simp

lemma ex_world_parse: "parseBookmarks ex_world ex_path = Inr ex_bookmarks"
  by code_simp

text \<open>
  C9: in a run in which the bookmark file is found and decoded and no operation fails,
  the batch \<open>a\<close> handed to \<open>saveBookmarksToDB\<close> is the extraction of the children of
  the bookmark bar, then of \<open>other\<close>, then of \<open>synced\<close>, each extracted on its own;
  the table the run leaves holds the net effect of this batch in this order: each url
  of the batch once, with the name of its last occurrence.
\<close>

theorem main_concatenates_roots_in_order:
  assumes "\<forall>op. \<not> fault w op"
    and "getBookmarksFilePath w = Inr path"
    and "parseBookmarks w path = Inr b"
    and "a = extractBookmarks (Children_f (BookmarkBar (Roots b)))
            @ extractBookmarks (Children_f (Other (Roots b)))
            @ extractBookmarks (Children_f (Synced (Roots b)))"
  shows "\<exists>w2 db w3.
      initDB (emit w [Printf fmt_found [S path]]) ''bookmarks.db'' = (w2, Inr db)
      \<and> saveBookmarksToDB w2 db a = (w3, None)
      \<and> files (main w) = files w3
      \<and> files (main w) ''bookmarks.db''
          = Some (Sqlite (Some \<lparr>columns = bookmarks_columns, rows = upsert [] a\<rparr>))
      \<and> snd ` set (upsert [] a) = URL ` set a
      \<and> distinct (map snd (upsert [] a))
      \<and> (\<forall>r \<in> set (upsert [] a). fst r = Name (last (filter (\<lambda>b. URL b = snd r) a)))"
proof -
  let ?w1 = "emit w [Printf fmt_found [S path]]"
  have nf1: "\<forall>op. \<not> fault ?w1 op"
    using assms(1) by simp
  from store_run [OF nf1, of "''bookmarks.db''" a] obtain w2 db w3 where
    i: "initDB ?w1 ''bookmarks.db'' = (w2, Inr db)"
    and s: "saveBookmarksToDB w2 db a = (w3, None)"
    and f: "files w3 ''bookmarks.db''
          = Some (Sqlite (Some \<lparr>columns = bookmarks_columns, rows = upsert [] a\<rparr>))"
    by blast
  have f1: "initDB ?w1 ''bookmarks.db''
      = (write_file ?w1 ''bookmarks.db''
           (Some (Sqlite (Some \<lparr>columns = bookmarks_columns, rows = []\<rparr>))),
         Inr \<lparr>db_path = ''bookmarks.db''\<rparr>)"
    using nf1 by (simp add: initDB_ok)
  with i have w2: "w2 = write_file ?w1 ''bookmarks.db''
           (Some (Sqlite (Some \<lparr>columns = bookmarks_columns, rows = []\<rparr>)))"
    and db: "db = \<lparr>db_path = ''bookmarks.db''\<rparr>"
    by simp_all
  have "saveBookmarksToDB w2 db a
      = (write_file w2 (db_path db) (Some (Sqlite (Some
           (\<lparr>columns = bookmarks_columns, rows = []\<rparr>\<lparr>rows := upsert [] a\<rparr>)))), None)"
    using saveBookmarksToDB_ok
      [of w2 db "\<lparr>columns = bookmarks_columns, rows = []\<rparr>" a] assms(1)
    by (simp add: w2 db)
  with s have w3: "files w3 = (files w)(''bookmarks.db'' \<mapsto>
           Sqlite (Some \<lparr>columns = bookmarks_columns, rows = upsert [] a\<rparr>))"
    by (auto simp: w2 db)
  have m: "files (main w) = files w3"
    unfolding w3 using assms by (rule main_ok(2))
  have l: "\<forall>r \<in> set (upsert [] a). fst r = Name (last (filter (\<lambda>b. URL b = snd r) a))"
  proof
    fix r assume r: "r \<in> set (upsert [] a)"
    then have "snd r \<in> snd ` set (upsert [] a)" by simp
    then have "snd r \<in> URL ` set a" by (simp add: upsert_urls)
    with r upsert_last [of "fst r" "snd r" "[]" a]
    show "fst r = Name (last (filter (\<lambda>b. URL b = snd r) a))" by simp
  qed
  from i s m f l show ?thesis
    using upsert_urls [of "[]" a] upsert_distinct [of "[]" a] by auto
qed

theorem main_concatenates_roots_in_order_witness:
  "(\<forall>op. \<not> fault ex_world op)
   \<and> getBookmarksFilePath ex_world = Inr ex_path
   \<and> parseBookmarks ex_world ex_path = Inr ex_bookmarks
   \<and> extractBookmarks (Children_f (BookmarkBar (Roots ex_bookmarks))) = [ex_A, ex_B, ex_C]
   \<and> extractBookmarks (Children_f (Other (Roots ex_bookmarks))) = [ex_A2]
   \<and> extractBookmarks (Children_f (Synced (Roots ex_bookmarks))) = []
   \<and> files (main ex_world) ''bookmarks.db''
       = Some (Sqlite (Some \<lparr>columns = bookmarks_columns,
            rows = [(''B'', ''http://b''), (''C'', ''http://c''), (''A2'', ''http://a'')]\<rparr>))"
proof -
  have e: "extractBookmarks (Children_f (BookmarkBar (Roots ex_bookmarks))) = [ex_A, ex_B, ex_C]"
    "extractBookmarks (Children_f (Other (Roots ex_bookmarks))) = [ex_A2]"
    "extractBookmarks (Children_f (Synced (Roots ex_bookmarks))) = []"
    by (simp_all add: ex_bookmarks_def ex_folder_def ex_A_def ex_B_def ex_C_def ex_F_def
        ex_G_def ex_A2_def)
  have u: "upsert [] ([ex_A, ex_B, ex_C] @ [ex_A2] @ [])
      = [(''B'', ''http://b''), (''C'', ''http://c''), (''A2'', ''http://a'')]"
    by (simp add: upsert_def ex_A_def ex_B_def ex_C_def ex_A2_def)
  have "files (main ex_world) ''bookmarks.db''
       = Some (Sqlite (Some \<lparr>columns = bookmarks_columns,
            rows = upsert [] ([ex_A, ex_B, ex_C] @ [ex_A2] @ [])\<rparr>))"
    using main_concatenates_roots_in_order
      [OF ex_world_no_fault ex_world_path ex_world_parse refl]
    unfolding e by blast
  then show ?thesis
    unfolding u using e ex_world_no_fault ex_world_path ex_world_parse by simp
qed

lemma initDB_trace: "initDB w p = (w', Inr db) \<Longrightarrow> trace w' = trace w"
  by (auto simp: initDB_def os_Stat_def os_Remove_def sql_Open_def db_Exec_create_def
      split: if_splits sum.splits option.splits filedata.splits)

lemma stmt_Exec_trace: "stmt_Exec w db k n u = Inr w' \<Longrightarrow> trace w' = trace w"
  by (auto simp: stmt_Exec_def split: if_splits sum.splits)

lemma saveBookmarksToDB_loop_trace: "trace (fst (saveBookmarksToDB_loop w db k bs)) = trace w"
  by (induction bs arbitrary: w k) (auto split: sum.splits dest: stmt_Exec_trace)

lemma saveBookmarksToDB_trace: "trace (fst (saveBookmarksToDB w db bs)) = trace w"
  by (simp add: saveBookmarksToDB_def saveBookmarksToDB_loop_trace split: sum.splits)

text \<open>
  A run in which \<open>initDB\<close> has succeeded and \<open>saveBookmarksToDB\<close> fails ends in
  \<^verbatim>\<open>log.Fatalf\<close>: after the line that reports the file, the trace has the message
  and the exit with status 1, and no \<open>DbClose\<close>.
\<close>

lemma main_save_error_exits:
  assumes gp: "getBookmarksFilePath w = Inr path"
    and pb: "parseBookmarks w path = Inr b"
    and a: "a = extractBookmarks (Children_f (BookmarkBar (Roots b)))
            @ extractBookmarks (Children_f (Other (Roots b)))
            @ extractBookmarks (Children_f (Synced (Roots b)))"
    and i: "initDB (emit w [Printf fmt_found [S path]]) ''bookmarks.db'' = (w2, Inr db)"
    and s: "saveBookmarksToDB w2 db a = (w3, Some e)"
  shows "trace (main w)
    = trace w @ [Printf fmt_found [S path], LogPrintf fmt_err_save [V e], Exit 1]"
proof -
  have "trace w3 = trace w2"
    using saveBookmarksToDB_trace [of w2 db a] s by simp
  also have "\<dots> = trace w @ [Printf fmt_found [S path]]"
    using initDB_trace [OF i] by simp
  finally have t: "trace w3 = trace w @ [Printf fmt_found [S path]]" .
  have "main w = log_Fatalf w3 fmt_err_save [V e]"
    unfolding main_def gp by (simp add: pb Let_def i a [symmetric] s)
  then show ?thesis
    by (simp add: log_Fatalf_def t)
qed

text \<open>
  A run in which the batch is saved and \<open>PrintBookmarks\<close> fails goes on after the
  message of \<^verbatim>\<open>log.Printf\<close>: \<open>main\<close> returns, and the deferred \<open>Close\<close> runs.
\<close>

lemma main_print_error_closes:
  assumes gp: "getBookmarksFilePath w = Inr path"
    and pb: "parseBookmarks w path = Inr b"
    and a: "a = extractBookmarks (Children_f (BookmarkBar (Roots b)))
            @ extractBookmarks (Children_f (Other (Roots b)))
            @ extractBookmarks (Children_f (Synced (Roots b)))"
    and i: "initDB (emit w [Printf fmt_found [S path]]) ''bookmarks.db'' = (w2, Inr db)"
    and s: "saveBookmarksToDB w2 db a = (w3, None)"
    and p: "PrintBookmarks (emit w3 [Printf fmt_saved [D (int (length a)), S ''bookmarks.db'']]) db
            = (w5, Some e)"
  shows "trace (main w)
    = trace w @ [Printf fmt_found [S path],
                 Printf fmt_saved [D (int (length a)), S ''bookmarks.db''],
                 LogPrintf fmt_err_print [V e], DbClose (db_path db), Exit 0]"
proof -
  have "trace w3 = trace w2"
    using saveBookmarksToDB_trace [of w2 db a] s by simp
  also have "\<dots> = trace w @ [Printf fmt_found [S path]]"
    using initDB_trace [OF i] by simp
  finally have t: "trace w3 = trace w @ [Printf fmt_found [S path]]" .
  from p have w5: "w5 = emit w3 [Printf fmt_saved [D (int (length a)), S ''bookmarks.db'']]"
    by (auto simp: PrintBookmarks_def split: sum.splits)
  have "main w = emit (db_Close (emit w5 [LogPrintf fmt_err_print [V e]]) db) [Exit 0]"
    unfolding main_def gp by (simp add: pb Let_def i a [symmetric] s p)
  then show ?thesis
    by (simp add: w5 t)
qed

text \<open>
  C5: the run of \<open>ex_world_fail0\<close>, in which \<open>initDB\<close> succeeds and the first insert
  fails. The process ends with status 1 right after the message of \<^verbatim>\<open>log.Fatalf\<close>;
  \<open>Close\<close> is not called on the database handle, although the source defers it.
\<close>

theorem main_fatal_save_skips_close:
  "(\<exists>w2 db. initDB (emit ex_world_fail0 [Printf fmt_found [S ex_path]]) ''bookmarks.db''
        = (w2, Inr db))
   \<and> trace (main ex_world_fail0)
       = [Printf fmt_found [S ex_path],
          LogPrintf fmt_err_save [V (ErrInsert (Fault (OpInsert 0)))], Exit 1]
   \<and> DbClose ''bookmarks.db'' \<notin> set (trace (main ex_world_fail0))
   \<and> trace (main ex_world)
       = [Printf fmt_found [S ex_path], Printf fmt_saved [D 4, S ''bookmarks.db'']]
         @ listing [\<lparr>Name_r = ''B'', URL_r = ''http://b''\<rparr>, \<lparr>Name_r = ''C'', URL_r = ''http://c''\<rparr>,
                    \<lparr>Name_r = ''A2'', URL_r = ''http://a''\<rparr>]
         @ [DbClose ''bookmarks.db'', Exit 0]"
proof (intro conjI)
  show "\<exists>w2 db. initDB (emit ex_world_fail0 [Printf fmt_found [S ex_path]]) ''bookmarks.db''
        = (w2, Inr db)"
    by (simp add: initDB_ok ex_world_fail0_def)
  show "trace (main ex_world_fail0)
       = [Printf fmt_found [S ex_path],
          LogPrintf fmt_err_save [V (ErrInsert (Fault (OpInsert 0)))], Exit 1]"
    by code_simp
  show "DbClose ''bookmarks.db'' \<notin> set (trace (main ex_world_fail0))"
    by code_simp
  show "trace (main ex_world)
       = [Printf fmt_found [S ex_path], Printf fmt_saved [D 4, S ''bookmarks.db'']]
         @ listing [\<lparr>Name_r = ''B'', URL_r = ''http://b''\<rparr>, \<lparr>Name_r = ''C'', URL_r = ''http://c''\<rparr>,
                    \<lparr>Name_r = ''A2'', URL_r = ''http://a''\<rparr>]
         @ [DbClose ''bookmarks.db'', Exit 0]"
    by code_simp
qed

text \<open>
  What the listing prints in general: the lines of \<open>listing\<close> for the records the
  query yields, one line for each record, with a name of more than 27 bytes cut to its
  first 24 bytes and a url of more than 37 bytes cut to its first 34 bytes, each followed
  by three dots. For a text of ASCII characters the number of bytes is the number of
  characters.
\<close>

lemma PrintBookmarks_ok:
  "GetAllBookmarks w db = Inr rs \<Longrightarrow> PrintBookmarks w db = (emit w (listing rs), None)"
  by (simp add: PrintBookmarks_def)

lemma length_listing: "length (listing rs) = length rs + 6"
  by (simp add: listing_def)

lemma shorten_cases:
  "length s \<le> limit \<Longrightarrow> shorten limit keep s = s"
  "limit < length s \<Longrightarrow> shorten limit keep s = take keep s @ ''...''"
  by (simp_all add: shorten_def)

lemma utf8_length_ascii:
  "list_all (\<lambda>c. (of_char c :: nat) < 128) s \<Longrightarrow> utf8_length s = length s"
  by (induction s) (simp_all add: utf8_length_def)

text \<open>
  C7: the run of \<open>ex_world_test\<close>, whose one bookmark has the name of the repository's
  test, 19 characters in 35 bytes. The name is stored whole, and the listing prints its
  first 24 bytes and the ellipsis: a name of fewer than 27 characters is cut, in the
  middle of a character (the last byte kept is the first byte of a two-byte letter).
\<close>

theorem PrintBookmarks_cuts_by_bytes:
  "utf8_length test_name = 19 \<and> length test_name = 35
   \<and> files (main ex_world_test) ''bookmarks.db''
       = Some (Sqlite (Some \<lparr>columns = bookmarks_columns,
            rows = [(test_name, ''https://example.com'')]\<rparr>))
   \<and> trace (main ex_world_test)
       = [Printf fmt_found [S ex_path], Printf fmt_saved [D 1, S ''bookmarks.db''],
          Println msg_list_title, Println hr_line,
          Printf fmt_row [S hdr_name, S ''URL''], Println hr_line,
          Printf fmt_row [S (take 24 test_name @ ''...''), S ''https://example.com''],
          Println hr_line, Printf fmt_total [D 1],
          DbClose ''bookmarks.db'', Exit 0]
   \<and> take 24 test_name @ ''...'' \<noteq> test_name
   \<and> last (take 24 test_name) = CHR 0xD0
   \<and> utf8_length (take 23 test_name) = 12"
proof (intro conjI)
  show "utf8_length test_name = 19" by code_simp
  show "length test_name = 35" by code_simp
  show "files (main ex_world_test) ''bookmarks.db''
       = Some (Sqlite (Some \<lparr>columns = bookmarks_columns,
            rows = [(test_name, ''https://example.com'')]\<rparr>))"
    by code_simp
  show "trace (main ex_world_test)
       = [Printf fmt_found [S ex_path], Printf fmt_saved [D 1, S ''bookmarks.db''],
          Println msg_list_title, Println hr_line,
          Printf fmt_row [S hdr_name, S ''URL''], Println hr_line,
          Printf fmt_row [S (take 24 test_name @ ''...''), S ''https://example.com''],
          Println hr_line, Printf fmt_total [D 1],
          DbClose ''bookmarks.db'', Exit 0]"
    by code_simp
  show "take 24 test_name @ ''...'' \<noteq> test_name" by code_simp
  show "last (take 24 test_name) = CHR 0xD0" by code_simp
  show "utf8_length (take 23 test_name) = 12" by code_simp
qed

section \<open>Properties of the decoder\<close>

lemma decodeString_isl: "isl (decodeString j cur) = (\<not> fits_string j)"
  by (cases j) (simp_all add: decodeString_def fits_string_def)

lemma decodeInt_isl: "isl (decodeInt j cur) = (\<not> fits_int j)"
proof (cases j)
  case (JNumber x)
  then show ?thesis by (cases x) (simp_all add: decodeInt_def fits_int_def)
qed (simp_all add: decodeInt_def fits_int_def)

lemma isl_case_sum:
  "isl (case x of Inl e \<Rightarrow> Inl e | Inr y \<Rightarrow> f y) = (isl x \<or> isl (f (projr x)))"
  by (cases x) simp_all

text \<open>The names of the fields of one struct differ also when letter case is ignored.\<close>

lemma is_field_names [simp]:
  "is_field k ''children'' \<Longrightarrow> \<not> list_ex (is_field k) item_string_fields"
  "is_field k ''children'' \<Longrightarrow> \<not> list_ex (is_field k) folder_string_fields"
  "is_field k ''roots'' \<Longrightarrow> \<not> is_field k ''version''"
  "is_field k ''roots'' \<Longrightarrow> \<not> is_field k ''checksum''"
  "is_field k ''version'' \<Longrightarrow> \<not> is_field k ''checksum''"
  by (simp_all add: is_field_def upper_def item_string_fields_def folder_string_fields_def)

text \<open>Decoding fails exactly on the values that do not fit.\<close>

lemma decodeItem_isl:
  "isl (decodeItem j cur) = (\<not> fits_item j)"
  "isl (decodeItemFields kvs cur) = (\<not> fits_item_fields kvs)"
  "isl (decodeItems j' cs' sp') = (\<not> fits_items j')"
  "isl (decodeElems js mem) = (\<not> fits_elems js)"
proof (induction j cur and kvs cur and j' cs' sp' and js mem
    rule: decodeItem_decodeItemFields_decodeItems_decodeElems.induct)
  case (8 k v kvs d i n t u cs sp)
  show ?case
  proof (cases "is_field k ''children''")
    case True
    then have nostr: "\<not> is_field k ''date_added''" "\<not> is_field k ''id''" "\<not> is_field k ''name''"
      "\<not> is_field k ''type''" "\<not> is_field k ''url''"
      using is_field_names(1) [of k] by (auto simp: item_string_fields_def)
    show ?thesis
    proof (cases "decodeItems v cs sp")
      case (Inl e)
      with True nostr "8.IH"(6) show ?thesis by simp
    next
      case (Inr m)
      with True nostr "8.IH"(6) "8.IH"(7) [of m] show ?thesis by simp
    qed
  next
    case False
    show ?thesis
    proof (cases "list_ex (is_field k) item_string_fields")
      case False
      with \<open>\<not> is_field k ''children''\<close> "8.IH"(8) show ?thesis
        by (simp add: item_string_fields_def)
    next
      case True
      have s: "\<And>c. isl (decodeString v c) = (\<not> fits_string v)"
        by (rule decodeString_isl)
      show ?thesis
      proof (cases "fits_string v")
        case False
        with True s \<open>\<not> is_field k ''children''\<close> show ?thesis
          by (auto simp: item_string_fields_def isl_case_sum split: sum.splits)
      next
        case fs: True
        with s have ok: "\<And>c. \<exists>x. decodeString v c = Inr x"
          by (metis isl_def sum.exhaust_sel sum.collapse(2))
        from ok [of d] obtain d' where d': "decodeString v d = Inr d'" by blast
        from ok [of i] obtain i' where i': "decodeString v i = Inr i'" by blast
        from ok [of n] obtain n' where n': "decodeString v n = Inr n'" by blast
        from ok [of t] obtain t' where t': "decodeString v t = Inr t'" by blast
        from ok [of u] obtain u' where u': "decodeString v u = Inr u'" by blast
        from True \<open>\<not> is_field k ''children''\<close> fs d' i' n' t' u'
          "8.IH"(1) [of d'] "8.IH"(2) [of i'] "8.IH"(3) [of n'] "8.IH"(4) [of t']
          "8.IH"(5) [of u']
        show ?thesis
          by (auto simp: item_string_fields_def)
      qed
    qed
  qed
next
  case (11 j js cs sp)
  then show ?case
    by (simp add: isl_case_sum)
next
  case (17 j js mem)
  then show ?case
    by (cases "decodeItem j (case mem of [] \<Rightarrow> zeroItem | x # rest \<Rightarrow> x)";
        cases "decodeElems js (drop 1 mem)") auto
qed simp_all

lemma decodeFolderFields_isl:
  "isl (decodeFolderFields kvs cur)
   = (\<not> list_all (\<lambda>(k, v).
            if is_field k ''children'' then fits_items v
            else if list_ex (is_field k) folder_string_fields then fits_string v
            else True) kvs)"
proof (induction kvs arbitrary: cur)
  case Nil
  show ?case by simp
next
  case (Cons x kvs)
  obtain k v where x: "x = (k, v)" by (cases x)
  have c: "is_field k ''children'' \<Longrightarrow> \<not> list_ex (is_field k) folder_string_fields"
    by simp
  show ?case
    unfolding x using c
    by (simp add: isl_case_sum decodeString_isl decodeItem_isl Cons.IH folder_string_fields_def)
qed

lemma decodeFolder_isl: "isl (decodeFolder j cur) = (\<not> fits_folder j)"
  by (cases j) (simp_all add: decodeFolder_def fits_folder_def decodeFolderFields_isl)

lemma decodeRootsFields_isl:
  "isl (decodeRootsFields kvs cur)
   = (\<not> list_all (\<lambda>(k, v).
            if list_ex (is_field k) [''bookmark_bar'', ''other'', ''synced''] then fits_folder v
            else True) kvs)"
proof (induction kvs arbitrary: cur)
  case Nil
  show ?case by simp
next
  case (Cons x kvs)
  obtain k v where x: "x = (k, v)" by (cases x)
  show ?case
    unfolding x
    by (simp add: isl_case_sum decodeFolder_isl Cons.IH)
qed

lemma decodeRoots_isl: "isl (decodeRoots j cur) = (\<not> fits_roots j)"
  by (cases j) (simp_all add: decodeRoots_def fits_roots_def decodeRootsFields_isl)

lemma decodeBookmarksFields_isl:
  "isl (decodeBookmarksFields kvs cur)
   = (\<not> list_all (\<lambda>(k, v).
            if is_field k ''roots'' then fits_roots v
            else if is_field k ''version'' then fits_int v
            else if is_field k ''checksum'' then fits_string v
            else True) kvs)"
proof (induction kvs arbitrary: cur)
  case Nil
  show ?case by simp
next
  case (Cons x kvs)
  obtain k v where x: "x = (k, v)" by (cases x)
  show ?case
    unfolding x
    by (simp add: isl_case_sum decodeRoots_isl decodeInt_isl decodeString_isl Cons.IH)
qed

lemma json_Unmarshal_isl: "isl (json_Unmarshal data) = (\<not> accepted data)"
proof (cases data)
  case None
  then show ?thesis by (simp add: json_Unmarshal_def accepted_def)
next
  case (Some j)
  then show ?thesis
    by (cases j)
       (simp_all add: json_Unmarshal_def accepted_def fits_bookmarks_def isl_case_sum
          decodeBookmarksFields_isl)
qed

text \<open>A key that stands for no field of the struct changes nothing.\<close>

lemma decodeBookmarksFields_unknown:
  assumes "\<not> list_ex (is_field k) [''roots'', ''version'', ''checksum'']"
  shows "decodeBookmarksFields (xs @ (k, v) # ys) cur = decodeBookmarksFields (xs @ ys) cur"
  using assms
proof (induction xs arbitrary: cur)
  case Nil
  then show ?case by simp
next
  case (Cons x xs)
  obtain k' v' where x: "x = (k', v')" by (cases x)
  from Cons show ?case
    by (simp add: x split: sum.splits)
qed

lemma decodeRootsFields_unknown:
  assumes "\<not> list_ex (is_field k) [''bookmark_bar'', ''other'', ''synced'']"
  shows "decodeRootsFields (xs @ (k, v) # ys) cur = decodeRootsFields (xs @ ys) cur"
  using assms
proof (induction xs arbitrary: cur)
  case Nil
  then show ?case by simp
next
  case (Cons x xs)
  obtain k' v' where x: "x = (k', v')" by (cases x)
  from Cons show ?case
    by (simp add: x split: sum.splits)
qed

lemma decodeFolderFields_unknown:
  assumes "\<not> list_ex (is_field k) (''children'' # folder_string_fields)"
  shows "decodeFolderFields (xs @ (k, v) # ys) cur = decodeFolderFields (xs @ ys) cur"
  using assms
proof (induction xs arbitrary: cur)
  case Nil
  then show ?case by (simp add: folder_string_fields_def)
next
  case (Cons x xs)
  obtain k' v' where x: "x = (k', v')" by (cases x)
  from Cons show ?case
    by (simp add: x split: sum.splits)
qed

lemma decodeItemFields_unknown:
  assumes "\<not> list_ex (is_field k) (''children'' # item_string_fields)"
  shows "decodeItemFields (xs @ (k, v) # ys) cur = decodeItemFields (xs @ ys) cur"
  using assms
proof (induction xs arbitrary: cur)
  case Nil
  then show ?case by (cases cur) (simp add: item_string_fields_def)
next
  case (Cons x xs)
  obtain k' v' where x: "x = (k', v')" by (cases x)
  from Cons show ?case
    by (cases cur) (simp add: x split: sum.splits)
qed

text \<open>A field that the object does not mention keeps the value the target held.\<close>

lemma mentions_Cons: "mentions name ((k, v) # kvs) = (is_field k name \<or> mentions name kvs)"
  by (simp add: mentions_def)

lemma decodeItemFields_frame:
  assumes "decodeItemFields kvs cur = Inr r"
  shows "(\<not> mentions ''date_added'' kvs \<longrightarrow> DateAdded_m r = DateAdded_m cur)
    \<and> (\<not> mentions ''id'' kvs \<longrightarrow> ID_m r = ID_m cur)
    \<and> (\<not> mentions ''name'' kvs \<longrightarrow> Name_m r = Name_m cur)
    \<and> (\<not> mentions ''type'' kvs \<longrightarrow> Type_m r = Type_m cur)
    \<and> (\<not> mentions ''url'' kvs \<longrightarrow> URL_m r = URL_m cur)
    \<and> (\<not> mentions ''children'' kvs \<longrightarrow>
          Children_m r = Children_m cur \<and> spare_m r = spare_m cur)"
  using assms
proof (induction kvs arbitrary: cur)
  case Nil
  then show ?case by simp
next
  case (Cons x kvs)
  obtain k v where x: "x = (k, v)" by (cases x)
  obtain d i n t u cs sp where cur: "cur = ItemMem d i n t u cs sp" by (cases cur)
  from Cons.prems obtain cur' where step: "decodeItemFields kvs cur' = Inr r"
    and same: "\<not> is_field k ''date_added'' \<longrightarrow> DateAdded_m cur' = d"
      "\<not> is_field k ''id'' \<longrightarrow> ID_m cur' = i"
      "\<not> is_field k ''name'' \<longrightarrow> Name_m cur' = n"
      "\<not> is_field k ''type'' \<longrightarrow> Type_m cur' = t"
      "\<not> is_field k ''url'' \<longrightarrow> URL_m cur' = u"
      "\<not> is_field k ''children'' \<longrightarrow> Children_m cur' = cs \<and> spare_m cur' = sp"
    unfolding x cur by (simp split: if_splits sum.splits)
  from Cons.IH [OF step] same show ?case
    unfolding x cur by (simp add: mentions_Cons)
qed

lemma decodeFolderFields_frame:
  assumes "decodeFolderFields kvs cur = Inr r"
  shows "(\<not> mentions ''children'' kvs \<longrightarrow>
            Children_fm r = Children_fm cur \<and> spare_fm r = spare_fm cur)
    \<and> (\<not> mentions ''date_added'' kvs \<longrightarrow> DateAdded_fm r = DateAdded_fm cur)
    \<and> (\<not> mentions ''date_modified'' kvs \<longrightarrow> DateModified_fm r = DateModified_fm cur)
    \<and> (\<not> mentions ''id'' kvs \<longrightarrow> ID_fm r = ID_fm cur)
    \<and> (\<not> mentions ''name'' kvs \<longrightarrow> Name_fm r = Name_fm cur)
    \<and> (\<not> mentions ''type'' kvs \<longrightarrow> Type_fm r = Type_fm cur)"
  using assms
proof (induction kvs arbitrary: cur)
  case Nil
  then show ?case by simp
next
  case (Cons x kvs)
  obtain k v where x: "x = (k, v)" by (cases x)
  from Cons.prems obtain cur' where step: "decodeFolderFields kvs cur' = Inr r"
    and same: "\<not> is_field k ''children'' \<longrightarrow>
        Children_fm cur' = Children_fm cur \<and> spare_fm cur' = spare_fm cur"
      "\<not> is_field k ''date_added'' \<longrightarrow> DateAdded_fm cur' = DateAdded_fm cur"
      "\<not> is_field k ''date_modified'' \<longrightarrow> DateModified_fm cur' = DateModified_fm cur"
      "\<not> is_field k ''id'' \<longrightarrow> ID_fm cur' = ID_fm cur"
      "\<not> is_field k ''name'' \<longrightarrow> Name_fm cur' = Name_fm cur"
      "\<not> is_field k ''type'' \<longrightarrow> Type_fm cur' = Type_fm cur"
    unfolding x by (simp split: if_splits sum.splits)
  from Cons.IH [OF step] same show ?case
    unfolding x by (simp add: mentions_Cons)
qed

lemma decodeRootsFields_frame:
  assumes "decodeRootsFields kvs cur = Inr r"
  shows "(\<not> mentions ''bookmark_bar'' kvs \<longrightarrow> BookmarkBar_m r = BookmarkBar_m cur)
    \<and> (\<not> mentions ''other'' kvs \<longrightarrow> Other_m r = Other_m cur)
    \<and> (\<not> mentions ''synced'' kvs \<longrightarrow> Synced_m r = Synced_m cur)"
  using assms
proof (induction kvs arbitrary: cur)
  case Nil
  then show ?case by simp
next
  case (Cons x kvs)
  obtain k v where x: "x = (k, v)" by (cases x)
  from Cons.prems obtain cur' where step: "decodeRootsFields kvs cur' = Inr r"
    and same: "\<not> is_field k ''bookmark_bar'' \<longrightarrow> BookmarkBar_m cur' = BookmarkBar_m cur"
      "\<not> is_field k ''other'' \<longrightarrow> Other_m cur' = Other_m cur"
      "\<not> is_field k ''synced'' \<longrightarrow> Synced_m cur' = Synced_m cur"
    unfolding x by (simp split: if_splits sum.splits)
  from Cons.IH [OF step] same show ?case
    unfolding x by (simp add: mentions_Cons)
qed

lemma decodeBookmarksFields_frame:
  assumes "decodeBookmarksFields kvs cur = Inr r"
  shows "(\<not> mentions ''roots'' kvs \<longrightarrow> Roots_m r = Roots_m cur)
    \<and> (\<not> mentions ''version'' kvs \<longrightarrow> Version_m r = Version_m cur)
    \<and> (\<not> mentions ''checksum'' kvs \<longrightarrow> Checksum_m r = Checksum_m cur)"
  using assms
proof (induction kvs arbitrary: cur)
  case Nil
  then show ?case by simp
next
  case (Cons x kvs)
  obtain k v where x: "x = (k, v)" by (cases x)
  from Cons.prems obtain cur' where step: "decodeBookmarksFields kvs cur' = Inr r"
    and same: "\<not> is_field k ''roots'' \<longrightarrow> Roots_m cur' = Roots_m cur"
      "\<not> is_field k ''version'' \<longrightarrow> Version_m cur' = Version_m cur"
      "\<not> is_field k ''checksum'' \<longrightarrow> Checksum_m cur' = Checksum_m cur"
    unfolding x by (simp split: if_splits sum.splits)
  from Cons.IH [OF step] same show ?case
    unfolding x by (simp add: mentions_Cons)
qed

lemma bookmarks_of_zero: "bookmarks_of zeroBookmarksMem = zeroBookmarks"
  by (simp add: bookmarks_of_def roots_of_def folder_of_def zeroBookmarksMem_def
      zeroFolderMem_def zeroBookmarks_def zeroFolder_def)

lemma json_Unmarshal_frame:
  assumes "json_Unmarshal (Some (JObject kvs)) = Inr b"
  shows "(\<not> mentions ''roots'' kvs \<longrightarrow> Roots b = Roots zeroBookmarks)
    \<and> (\<not> mentions ''version'' kvs \<longrightarrow> Version b = 0)
    \<and> (\<not> mentions ''checksum'' kvs \<longrightarrow> Checksum b = [])"
proof -
  from assms obtain m where m: "decodeBookmarksFields kvs zeroBookmarksMem = Inr m"
    and b: "b = bookmarks_of m"
    by (auto simp: json_Unmarshal_def split: sum.splits)
  have z: "Roots zeroBookmarks = roots_of (Roots_m zeroBookmarksMem)"
    "Version_m zeroBookmarksMem = 0" "Checksum_m zeroBookmarksMem = []"
    using bookmarks_of_zero by (simp_all add: bookmarks_of_def zeroBookmarksMem_def zeroBookmarks_def)
  from decodeBookmarksFields_frame [OF m] show ?thesis
    unfolding b z(1) by (simp add: bookmarks_of_def z(2,3))
qed

lemma decodeElems_from_zero:
  "decodeElems js [] = Inr xs \<Longrightarrow> list_all2 (\<lambda>j x. decodeItem j zeroItem = Inr x) js xs"
  by (induction js arbitrary: xs) (auto split: sum.splits)

text \<open>
  A document that leaves out the zero fields of a value decodes to this value: what is
  left out comes back as zero, at every depth.
\<close>

lemma item_of_mem_of: "item_of (mem_of x) = x"
  by (induction x) (simp add: map_idI)

lemma decodeItemFields_opt:
  "decodeItemFields (opt_field ''date_added'' x @ kvs) (ItemMem [] i n t u cs sp)
     = decodeItemFields kvs (ItemMem x i n t u cs sp)"
  "decodeItemFields (opt_field ''id'' x @ kvs) (ItemMem d [] n t u cs sp)
     = decodeItemFields kvs (ItemMem d x n t u cs sp)"
  "decodeItemFields (opt_field ''name'' x @ kvs) (ItemMem d i [] t u cs sp)
     = decodeItemFields kvs (ItemMem d i x t u cs sp)"
  "decodeItemFields (opt_field ''type'' x @ kvs) (ItemMem d i n [] u cs sp)
     = decodeItemFields kvs (ItemMem d i n x u cs sp)"
  "decodeItemFields (opt_field ''url'' x @ kvs) (ItemMem d i n t [] cs sp)
     = decodeItemFields kvs (ItemMem d i n t x cs sp)"
  by (simp_all add: opt_field_def is_field_def upper_def decodeString_def)

lemma decodeElems_sparse:
  assumes "\<And>x. x \<in> set cs \<Longrightarrow> decodeItem (sparse_item_json x) zeroItem = Inr (mem_of x)"
  shows "decodeElems (map sparse_item_json cs) [] = Inr (map mem_of cs)"
  using assms by (induction cs) simp_all

lemma decodeItem_sparse: "decodeItem (sparse_item_json x) zeroItem = Inr (mem_of x)"
proof (induction x)
  case (BookmarkItem d i n t u cs)
  have e: "decodeElems (map sparse_item_json cs) [] = Inr (map mem_of cs)"
    using BookmarkItem.IH by (intro decodeElems_sparse) simp
  have c: "decodeItemFields
      (if cs = [] then [] else [(''children'', JArray (map sparse_item_json cs))])
      (ItemMem d i n t u [] []) = Inr (ItemMem d i n t u (map mem_of cs) [])"
  proof (cases cs)
    case Nil
    then show ?thesis by simp
  next
    case (Cons c cs')
    then have "decodeItems (JArray (map sparse_item_json cs)) [] [] = Inr (map mem_of cs, [])"
      using e by simp
    then show ?thesis
      using Cons by (simp add: is_field_def upper_def del: decodeItems.simps)
  qed
  show ?case
    by (simp add: zeroItem_def decodeItemFields_opt c del: decodeItemFields.simps)
qed

lemma folder_of_mem_of: "folder_of (folder_mem_of f) = f"
  by (simp add: folder_of_def folder_mem_of_def comp_def item_of_mem_of)

lemma folder_mem_of_zero: "folder_mem_of zeroFolder = zeroFolderMem"
  by (simp add: folder_mem_of_def zeroFolder_def zeroFolderMem_def)

lemma decodeFolderFields_opt:
  "decodeFolderFields (opt_field ''date_added'' x @ kvs)
      \<lparr>Children_fm = c, spare_fm = sp, DateAdded_fm = [], DateModified_fm = m, ID_fm = i,
       Name_fm = n, Type_fm = t\<rparr>
     = decodeFolderFields kvs
      \<lparr>Children_fm = c, spare_fm = sp, DateAdded_fm = x, DateModified_fm = m, ID_fm = i,
       Name_fm = n, Type_fm = t\<rparr>"
  "decodeFolderFields (opt_field ''date_modified'' x @ kvs)
      \<lparr>Children_fm = c, spare_fm = sp, DateAdded_fm = d, DateModified_fm = [], ID_fm = i,
       Name_fm = n, Type_fm = t\<rparr>
     = decodeFolderFields kvs
      \<lparr>Children_fm = c, spare_fm = sp, DateAdded_fm = d, DateModified_fm = x, ID_fm = i,
       Name_fm = n, Type_fm = t\<rparr>"
  "decodeFolderFields (opt_field ''id'' x @ kvs)
      \<lparr>Children_fm = c, spare_fm = sp, DateAdded_fm = d, DateModified_fm = m, ID_fm = [],
       Name_fm = n, Type_fm = t\<rparr>
     = decodeFolderFields kvs
      \<lparr>Children_fm = c, spare_fm = sp, DateAdded_fm = d, DateModified_fm = m, ID_fm = x,
       Name_fm = n, Type_fm = t\<rparr>"
  "decodeFolderFields (opt_field ''name'' x @ kvs)
      \<lparr>Children_fm = c, spare_fm = sp, DateAdded_fm = d, DateModified_fm = m, ID_fm = i,
       Name_fm = [], Type_fm = t\<rparr>
     = decodeFolderFields kvs
      \<lparr>Children_fm = c, spare_fm = sp, DateAdded_fm = d, DateModified_fm = m, ID_fm = i,
       Name_fm = x, Type_fm = t\<rparr>"
  "decodeFolderFields (opt_field ''type'' x @ kvs)
      \<lparr>Children_fm = c, spare_fm = sp, DateAdded_fm = d, DateModified_fm = m, ID_fm = i,
       Name_fm = n, Type_fm = []\<rparr>
     = decodeFolderFields kvs
      \<lparr>Children_fm = c, spare_fm = sp, DateAdded_fm = d, DateModified_fm = m, ID_fm = i,
       Name_fm = n, Type_fm = x\<rparr>"
  by (simp_all add: opt_field_def is_field_def upper_def decodeString_def)

lemma decodeItems_sparse:
  "cs \<noteq> [] \<Longrightarrow> decodeItems (JArray (map sparse_item_json cs)) [] [] = Inr (map mem_of cs, [])"
  using decodeElems_sparse [of cs] decodeItem_sparse by (cases cs) simp_all

lemma decodeFolder_sparse:
  "decodeFolder (sparse_folder_json f) zeroFolderMem = Inr (folder_mem_of f)"
proof -
  have c: "decodeFolderFields
      ((if Children_f f = [] then []
        else [(''children'', JArray (map sparse_item_json (Children_f f)))]) @ kvs)
      \<lparr>Children_fm = [], spare_fm = [], DateAdded_fm = [], DateModified_fm = [], ID_fm = [],
       Name_fm = [], Type_fm = []\<rparr>
    = decodeFolderFields kvs
      \<lparr>Children_fm = map mem_of (Children_f f), spare_fm = [], DateAdded_fm = [],
       DateModified_fm = [], ID_fm = [], Name_fm = [], Type_fm = []\<rparr>" for kvs
    by (simp add: decodeItems_sparse is_field_def upper_def)
  show ?thesis
    using decodeFolderFields_opt(5) [of "Type_f f" "[]"]
    by (simp add: decodeFolder_def sparse_folder_json_def zeroFolderMem_def c
        decodeFolderFields_opt folder_mem_of_def del: decodeFolderFields.simps(2))
qed

lemma roots_of_mem_of: "roots_of (roots_mem_of r) = r"
  by (simp add: roots_of_def roots_mem_of_def folder_of_mem_of)

lemma decodeRootsFields_opt:
  "decodeRootsFields (opt_folder ''bookmark_bar'' f @ kvs)
      \<lparr>BookmarkBar_m = zeroFolderMem, Other_m = o', Synced_m = s\<rparr>
     = decodeRootsFields kvs \<lparr>BookmarkBar_m = folder_mem_of f, Other_m = o', Synced_m = s\<rparr>"
  "decodeRootsFields (opt_folder ''other'' f @ kvs)
      \<lparr>BookmarkBar_m = b, Other_m = zeroFolderMem, Synced_m = s\<rparr>
     = decodeRootsFields kvs \<lparr>BookmarkBar_m = b, Other_m = folder_mem_of f, Synced_m = s\<rparr>"
  "decodeRootsFields (opt_folder ''synced'' f @ kvs)
      \<lparr>BookmarkBar_m = b, Other_m = o', Synced_m = zeroFolderMem\<rparr>
     = decodeRootsFields kvs \<lparr>BookmarkBar_m = b, Other_m = o', Synced_m = folder_mem_of f\<rparr>"
  by (simp_all add: opt_folder_def is_field_def upper_def decodeFolder_sparse
      folder_mem_of_zero del: decodeRootsFields.simps(2))
     (simp_all add: is_field_def upper_def decodeFolder_sparse)

lemma json_Unmarshal_sparse:
  assumes "- (2 ^ 63) \<le> Version b" "Version b < 2 ^ 63"
  shows "json_Unmarshal (Some (sparse_bookmarks_json b)) = Inr b"
proof -
  let ?r = "JObject (opt_folder ''bookmark_bar'' (BookmarkBar (Roots b))
                     @ opt_folder ''other'' (Other (Roots b))
                     @ opt_folder ''synced'' (Synced (Roots b)))"
  have r: "decodeRoots ?r (Roots_m zeroBookmarksMem) = Inr (roots_mem_of (Roots b))"
    using decodeRootsFields_opt(3) [of "Synced (Roots b)" "[]"]
    by (simp add: decodeRoots_def zeroBookmarksMem_def decodeRootsFields_opt roots_mem_of_def
        del: decodeRootsFields.simps(2))
  have z: "roots_mem_of (Roots zeroBookmarks) = Roots_m zeroBookmarksMem"
    by (simp add: roots_mem_of_def zeroBookmarks_def zeroBookmarksMem_def folder_mem_of_zero)
  have 1: "decodeBookmarksFields
      ((if Roots b = Roots zeroBookmarks then [] else [(''roots'', ?r)]) @ kvs)
      zeroBookmarksMem
    = decodeBookmarksFields kvs (zeroBookmarksMem\<lparr>Roots_m := roots_mem_of (Roots b)\<rparr>)" for kvs
    using r z by (auto simp: is_field_def upper_def zeroBookmarksMem_def)
  have 2: "decodeBookmarksFields
      ((if Version b = 0 then [] else [(''version'', JNumber (IntLit (Version b)))]) @ kvs) cur
    = decodeBookmarksFields kvs (cur\<lparr>Version_m := Version b\<rparr>)" if "Version_m cur = 0" for kvs cur
    using assms that by (cases cur) (auto simp: is_field_def upper_def decodeInt_def)
  have 3: "decodeBookmarksFields (opt_field ''checksum'' (Checksum b)) cur
    = Inr (cur\<lparr>Checksum_m := Checksum b\<rparr>)" if "Checksum_m cur = []" for cur
    using that by (cases cur) (auto simp: opt_field_def is_field_def upper_def decodeString_def)
  have "decodeBookmarksFields
      ((if Roots b = Roots zeroBookmarks then [] else [(''roots'', ?r)])
       @ (if Version b = 0 then [] else [(''version'', JNumber (IntLit (Version b)))])
       @ opt_field ''checksum'' (Checksum b)) zeroBookmarksMem
    = Inr \<lparr>Roots_m = roots_mem_of (Roots b), Version_m = Version b, Checksum_m = Checksum b\<rparr>"
    unfolding 1 by (simp add: 2 3 zeroBookmarksMem_def)
  then show ?thesis
    by (simp add: json_Unmarshal_def sparse_bookmarks_json_def bookmarks_of_def roots_of_mem_of)
qed

text \<open>
  Two arrays for the same \<open>children\<close> key after a longer one: the elements of the
  later arrays are decoded into the elements the backing array still holds, so the
  urls of \<open>A\<close> and \<open>B\<close> stay with \<open>D\<close> and \<open>E\<close>.
\<close>

lemma json_Unmarshal_repeated_children:
  "json_Unmarshal (Some (JObject [(''roots'', JObject [(''other'', JObject
      [(''children'', JArray [JObject [(''name'', JString ''A''), (''url'', JString ''ua'')],
                              JObject [(''name'', JString ''B''), (''url'', JString ''ub'')]]),
       (''children'', JArray [JObject [(''name'', JString ''C'')]]),
       (''children'', JArray [JObject [(''name'', JString ''D'')],
                              JObject [(''name'', JString ''E'')]])])])]))
   = Inr (zeroBookmarks\<lparr>Roots := (Roots zeroBookmarks)
        \<lparr>Other := zeroFolder\<lparr>Children_f :=
           [BookmarkItem [] [] ''D'' [] ''ua'' [], BookmarkItem [] [] ''E'' [] ''ub'' []]\<rparr>\<rparr>\<rparr>)"
  by code_simp

text \<open>
  C4: as the code has it, decoding fails exactly when the bytes are not a JSON
  document or the document is not \<open>accepted\<close>, that is, when the document, or the value
  of a key that stands for a field, or an element of an array of children is neither
  \<open>null\<close> nor of the JSON type of its target. A field that is missing is no error: in
  every struct, a field that the object does not mention keeps the value the target
  held, which is the zero value in a variable that is decoded for the first time; an
  element of an array that is decoded into an empty slice starts from the zero node; and
  a document that leaves out the zero fields of a value decodes to this value. A key that
  stands for no field is skipped, in the document, in the roots, in a folder and in a
  node.
\<close>

theorem parseBookmarks_fails_exactly_on_type_mismatch:
  "((\<exists>e. json_Unmarshal data = Inl e) \<longleftrightarrow> \<not> accepted data)
   \<and> (os_ReadFile w p = Inr data \<longrightarrow>
        ((\<exists>e. parseBookmarks w p = Inl (ErrParseJSON e)) \<longleftrightarrow> \<not> accepted data)
        \<and> ((\<exists>b. parseBookmarks w p = Inr b) \<longleftrightarrow> accepted data))
   \<and> json_Unmarshal (Some (JObject [])) = Inr zeroBookmarks
   \<and> (- (2 ^ 63) \<le> Version b \<and> Version b < 2 ^ 63 \<longrightarrow>
        json_Unmarshal (Some (sparse_bookmarks_json b)) = Inr b)
   \<and> (\<not> list_ex (is_field k) [''roots'', ''version'', ''checksum''] \<longrightarrow>
        json_Unmarshal (Some (JObject (xs @ (k, v) # ys))) = json_Unmarshal (Some (JObject (xs @ ys))))
   \<and> (\<not> list_ex (is_field k) [''bookmark_bar'', ''other'', ''synced''] \<longrightarrow>
        decodeRoots (JObject (xs @ (k, v) # ys)) rcur = decodeRoots (JObject (xs @ ys)) rcur)
   \<and> (\<not> list_ex (is_field k) (''children'' # folder_string_fields) \<longrightarrow>
        decodeFolder (JObject (xs @ (k, v) # ys)) fcur = decodeFolder (JObject (xs @ ys)) fcur)
   \<and> (\<not> list_ex (is_field k) (''children'' # item_string_fields) \<longrightarrow>
        decodeItem (JObject (xs @ (k, v) # ys)) cur = decodeItem (JObject (xs @ ys)) cur)
   \<and> (json_Unmarshal (Some (JObject kvs)) = Inr b' \<longrightarrow>
        (\<not> mentions ''roots'' kvs \<longrightarrow> Roots b' = Roots zeroBookmarks)
        \<and> (\<not> mentions ''version'' kvs \<longrightarrow> Version b' = 0)
        \<and> (\<not> mentions ''checksum'' kvs \<longrightarrow> Checksum b' = []))
   \<and> (decodeRoots (JObject kvs) rcur = Inr r \<longrightarrow>
        (\<not> mentions ''bookmark_bar'' kvs \<longrightarrow> BookmarkBar_m r = BookmarkBar_m rcur)
        \<and> (\<not> mentions ''other'' kvs \<longrightarrow> Other_m r = Other_m rcur)
        \<and> (\<not> mentions ''synced'' kvs \<longrightarrow> Synced_m r = Synced_m rcur))
   \<and> (decodeFolder (JObject kvs) fcur = Inr f \<longrightarrow>
        (\<not> mentions ''children'' kvs \<longrightarrow>
            Children_fm f = Children_fm fcur \<and> spare_fm f = spare_fm fcur)
        \<and> (\<not> mentions ''date_added'' kvs \<longrightarrow> DateAdded_fm f = DateAdded_fm fcur)
        \<and> (\<not> mentions ''date_modified'' kvs \<longrightarrow> DateModified_fm f = DateModified_fm fcur)
        \<and> (\<not> mentions ''id'' kvs \<longrightarrow> ID_fm f = ID_fm fcur)
        \<and> (\<not> mentions ''name'' kvs \<longrightarrow> Name_fm f = Name_fm fcur)
        \<and> (\<not> mentions ''type'' kvs \<longrightarrow> Type_fm f = Type_fm fcur))
   \<and> (decodeItem (JObject kvs) cur = Inr x \<longrightarrow>
        (\<not> mentions ''date_added'' kvs \<longrightarrow> DateAdded_m x = DateAdded_m cur)
        \<and> (\<not> mentions ''id'' kvs \<longrightarrow> ID_m x = ID_m cur)
        \<and> (\<not> mentions ''name'' kvs \<longrightarrow> Name_m x = Name_m cur)
        \<and> (\<not> mentions ''type'' kvs \<longrightarrow> Type_m x = Type_m cur)
        \<and> (\<not> mentions ''url'' kvs \<longrightarrow> URL_m x = URL_m cur)
        \<and> (\<not> mentions ''children'' kvs \<longrightarrow>
              Children_m x = Children_m cur \<and> spare_m x = spare_m cur))
   \<and> (decodeElems js [] = Inr ms \<longrightarrow>
        list_all2 (\<lambda>j m. decodeItem j zeroItem = Inr m) js ms)"
proof -
  have l: "(\<exists>e. json_Unmarshal data = Inl e) = isl (json_Unmarshal data)"
    by (cases "json_Unmarshal data") simp_all
  have 1: "(\<exists>e. json_Unmarshal data = Inl e) \<longleftrightarrow> \<not> accepted data"
    unfolding l by (rule json_Unmarshal_isl)
  have 2: "os_ReadFile w p = Inr data \<longrightarrow>
        ((\<exists>e. parseBookmarks w p = Inl (ErrParseJSON e)) \<longleftrightarrow> \<not> accepted data)
        \<and> ((\<exists>b. parseBookmarks w p = Inr b) \<longleftrightarrow> accepted data)"
    using 1 by (cases "json_Unmarshal data") (simp_all add: parseBookmarks_def)
  have 3: "json_Unmarshal (Some (JObject [])) = Inr zeroBookmarks"
    by (simp add: json_Unmarshal_def bookmarks_of_zero)
  have 4: "- (2 ^ 63) \<le> Version b \<and> Version b < 2 ^ 63 \<longrightarrow>
        json_Unmarshal (Some (sparse_bookmarks_json b)) = Inr b"
    by (simp add: json_Unmarshal_sparse)
  have 5: "\<not> list_ex (is_field k) [''roots'', ''version'', ''checksum''] \<longrightarrow>
        json_Unmarshal (Some (JObject (xs @ (k, v) # ys))) = json_Unmarshal (Some (JObject (xs @ ys)))"
    by (simp add: json_Unmarshal_def decodeBookmarksFields_unknown)
  have 6: "\<not> list_ex (is_field k) [''bookmark_bar'', ''other'', ''synced''] \<longrightarrow>
        decodeRoots (JObject (xs @ (k, v) # ys)) rcur = decodeRoots (JObject (xs @ ys)) rcur"
    by (simp add: decodeRoots_def decodeRootsFields_unknown)
  have 7: "\<not> list_ex (is_field k) (''children'' # folder_string_fields) \<longrightarrow>
        decodeFolder (JObject (xs @ (k, v) # ys)) fcur = decodeFolder (JObject (xs @ ys)) fcur"
    using decodeFolderFields_unknown [of k xs v ys fcur] by (simp add: decodeFolder_def)
  have 8: "\<not> list_ex (is_field k) (''children'' # item_string_fields) \<longrightarrow>
        decodeItem (JObject (xs @ (k, v) # ys)) cur = decodeItem (JObject (xs @ ys)) cur"
    using decodeItemFields_unknown [of k xs v ys cur] by simp
  have 9: "json_Unmarshal (Some (JObject kvs)) = Inr b' \<longrightarrow>
        (\<not> mentions ''roots'' kvs \<longrightarrow> Roots b' = Roots zeroBookmarks)
        \<and> (\<not> mentions ''version'' kvs \<longrightarrow> Version b' = 0)
        \<and> (\<not> mentions ''checksum'' kvs \<longrightarrow> Checksum b' = [])"
    using json_Unmarshal_frame [of kvs b'] by blast
  have 10: "decodeRoots (JObject kvs) rcur = Inr r \<longrightarrow>
        (\<not> mentions ''bookmark_bar'' kvs \<longrightarrow> BookmarkBar_m r = BookmarkBar_m rcur)
        \<and> (\<not> mentions ''other'' kvs \<longrightarrow> Other_m r = Other_m rcur)
        \<and> (\<not> mentions ''synced'' kvs \<longrightarrow> Synced_m r = Synced_m rcur)"
    using decodeRootsFields_frame [of kvs rcur r] by (simp add: decodeRoots_def)
  have 11: "decodeFolder (JObject kvs) fcur = Inr f \<longrightarrow>
        (\<not> mentions ''children'' kvs \<longrightarrow>
            Children_fm f = Children_fm fcur \<and> spare_fm f = spare_fm fcur)
        \<and> (\<not> mentions ''date_added'' kvs \<longrightarrow> DateAdded_fm f = DateAdded_fm fcur)
        \<and> (\<not> mentions ''date_modified'' kvs \<longrightarrow> DateModified_fm f = DateModified_fm fcur)
        \<and> (\<not> mentions ''id'' kvs \<longrightarrow> ID_fm f = ID_fm fcur)
        \<and> (\<not> mentions ''name'' kvs \<longrightarrow> Name_fm f = Name_fm fcur)
        \<and> (\<not> mentions ''type'' kvs \<longrightarrow> Type_fm f = Type_fm fcur)"
    using decodeFolderFields_frame [of kvs fcur f] by (simp add: decodeFolder_def)
  have 12: "decodeItem (JObject kvs) cur = Inr x \<longrightarrow>
        (\<not> mentions ''date_added'' kvs \<longrightarrow> DateAdded_m x = DateAdded_m cur)
        \<and> (\<not> mentions ''id'' kvs \<longrightarrow> ID_m x = ID_m cur)
        \<and> (\<not> mentions ''name'' kvs \<longrightarrow> Name_m x = Name_m cur)
        \<and> (\<not> mentions ''type'' kvs \<longrightarrow> Type_m x = Type_m cur)
        \<and> (\<not> mentions ''url'' kvs \<longrightarrow> URL_m x = URL_m cur)
        \<and> (\<not> mentions ''children'' kvs \<longrightarrow>
              Children_m x = Children_m cur \<and> spare_m x = spare_m cur)"
    using decodeItemFields_frame [of kvs cur x] by simp
  have 13: "decodeElems js [] = Inr ms \<longrightarrow>
        list_all2 (\<lambda>j m. decodeItem j zeroItem = Inr m) js ms"
    by (simp add: decodeElems_from_zero)
  from 1 2 3 4 5 6 7 8 9 10 11 12 13 show ?thesis
    by (intro conjI)
qed

theorem parseBookmarks_fails_exactly_on_type_mismatch_witness:
  "os_ReadFile ex_world ex_path = Inr (Some ex_doc)
   \<and> accepted (Some ex_doc)
   \<and> parseBookmarks ex_world ex_path = Inr ex_bookmarks
   \<and> \<not> accepted (Some (JObject [(''version'', JString ''1'')]))
   \<and> json_Unmarshal (Some (JObject [(''version'', JString ''1'')]))
      = Inl (UnmarshalTypeError ''int'')
   \<and> json_Unmarshal (Some (sparse_bookmarks_json ex_bookmarks)) = Inr ex_bookmarks
   \<and> json_Unmarshal (Some (JObject ([(''checksum'', JString ''0123'')]
        @ (''sync_metadata'', JString ''abc'') # [(''version'', JNumber (IntLit 1))])))
      = Inr (zeroBookmarks\<lparr>Version := 1, Checksum := ''0123''\<rparr>)
   \<and> decodeRoots (JObject ([] @ (''trash'', JArray []) #
          [(''other'', JObject [(''name'', JString ''o'')])])) (Roots_m zeroBookmarksMem)
      = Inr ((Roots_m zeroBookmarksMem)\<lparr>Other_m := zeroFolderMem\<lparr>Name_fm := ''o''\<rparr>\<rparr>)
   \<and> decodeFolder (JObject ([(''name'', JString ''bar'')] @ (''guid'', JString ''g'') #
          [(''children'', JArray [item_json ex_C])])) zeroFolderMem
      = Inr (zeroFolderMem\<lparr>Children_fm := [mem_of ex_C], Name_fm := ''bar''\<rparr>)
   \<and> decodeItem (JObject ([(''name'', JString ''A'')] @ (''meta_info'', JNumber FracLit) # []))
        zeroItem
      = Inr (ItemMem [] [] ''A'' [] [] [] [])
   \<and> (\<exists>b. json_Unmarshal (Some (JObject [(''version'', JNumber (IntLit 7))])) = Inr b
         \<and> Version b = 7 \<and> Roots b = Roots zeroBookmarks \<and> Checksum b = [])
   \<and> (\<exists>x. decodeItem (JObject [(''type'', JString ''url'')]) zeroItem = Inr x
         \<and> Type_m x = ''url'' \<and> Name_m x = [] \<and> URL_m x = [] \<and> Children_m x = [])
   \<and> (\<exists>r. decodeRoots (JObject [(''other'', JObject [(''name'', JString ''o'')])])
           (Roots_m zeroBookmarksMem) = Inr r
         \<and> Other_m r = zeroFolderMem\<lparr>Name_fm := ''o''\<rparr>
         \<and> BookmarkBar_m r = zeroFolderMem \<and> Synced_m r = zeroFolderMem)
   \<and> (\<exists>f. decodeFolder (JObject [(''name'', JString ''bar'')])
           (zeroFolderMem\<lparr>Type_fm := ''folder''\<rparr>) = Inr f
         \<and> Name_fm f = ''bar'' \<and> Type_fm f = ''folder'' \<and> Children_fm f = [])
   \<and> decodeElems [JObject [(''name'', JString ''A'')], JNull] []
       = Inr [ItemMem [] [] ''A'' [] [] [] [], zeroItem]
   \<and> decodeItem (JObject [(''name'', JString ''A'')]) zeroItem = Inr (ItemMem [] [] ''A'' [] [] [] [])
   \<and> decodeItem JNull zeroItem = Inr zeroItem"
proof -
  note T = parseBookmarks_fails_exactly_on_type_mismatch
  have r: "os_ReadFile ex_world ex_path = Inr (Some ex_doc)"
    by (simp add: os_ReadFile_def ex_world_def ex_path_def)
  have a: "accepted (Some ex_doc)"
    using T [where data = "Some ex_doc" and w = ex_world and p = ex_path, THEN conjunct2, THEN conjunct1] r ex_world_parse
    by simp
  have e: "json_Unmarshal (Some (JObject [(''version'', JString ''1'')]))
      = Inl (UnmarshalTypeError ''int'')"
    by code_simp
  then have n: "\<not> accepted (Some (JObject [(''version'', JString ''1'')]))"
    using T [where data = "Some (JObject [(''version'', JString ''1'')])", THEN conjunct1] by blast
  have "- (2 ^ 63) \<le> Version ex_bookmarks \<and> Version ex_bookmarks < 2 ^ 63"
    by (simp add: ex_bookmarks_def)
  then have s: "json_Unmarshal (Some (sparse_bookmarks_json ex_bookmarks)) = Inr ex_bookmarks"
    using T [where b = ex_bookmarks, THEN conjunct2, THEN conjunct2, THEN conjunct2, THEN conjunct1] by blast
  have "\<not> list_ex (is_field ''sync_metadata'') [''roots'', ''version'', ''checksum'']"
    by (simp add: is_field_def upper_def)
  then have "json_Unmarshal (Some (JObject ([(''checksum'', JString ''0123'')]
        @ (''sync_metadata'', JString ''abc'') # [(''version'', JNumber (IntLit 1))])))
      = json_Unmarshal (Some (JObject ([(''checksum'', JString ''0123'')]
        @ [(''version'', JNumber (IntLit 1))])))"
    using T [where k = "''sync_metadata''", THEN conjunct2, THEN conjunct2, THEN conjunct2, THEN conjunct2, THEN conjunct1] by blast
  also have "\<dots> = Inr (zeroBookmarks\<lparr>Version := 1, Checksum := ''0123''\<rparr>)"
    by code_simp
  finally have u1: "json_Unmarshal (Some (JObject ([(''checksum'', JString ''0123'')]
        @ (''sync_metadata'', JString ''abc'') # [(''version'', JNumber (IntLit 1))])))
      = Inr (zeroBookmarks\<lparr>Version := 1, Checksum := ''0123''\<rparr>)" .
  have "\<not> list_ex (is_field ''trash'') [''bookmark_bar'', ''other'', ''synced'']"
    by (simp add: is_field_def upper_def)
  then have "decodeRoots (JObject ([] @ (''trash'', JArray []) #
          [(''other'', JObject [(''name'', JString ''o'')])])) (Roots_m zeroBookmarksMem)
      = decodeRoots (JObject ([] @ [(''other'', JObject [(''name'', JString ''o'')])]))
          (Roots_m zeroBookmarksMem)"
    using T [where k = "''trash''", THEN conjunct2, THEN conjunct2, THEN conjunct2, THEN conjunct2, THEN conjunct2, THEN conjunct1] by blast
  also have "\<dots> = Inr ((Roots_m zeroBookmarksMem)\<lparr>Other_m := zeroFolderMem\<lparr>Name_fm := ''o''\<rparr>\<rparr>)"
    by code_simp
  finally have u2: "decodeRoots (JObject ([] @ (''trash'', JArray []) #
          [(''other'', JObject [(''name'', JString ''o'')])])) (Roots_m zeroBookmarksMem)
      = Inr ((Roots_m zeroBookmarksMem)\<lparr>Other_m := zeroFolderMem\<lparr>Name_fm := ''o''\<rparr>\<rparr>)" .
  have "\<not> list_ex (is_field ''guid'') (''children'' # folder_string_fields)"
    by (simp add: is_field_def upper_def folder_string_fields_def)
  then have "decodeFolder (JObject ([(''name'', JString ''bar'')] @ (''guid'', JString ''g'') #
          [(''children'', JArray [item_json ex_C])])) zeroFolderMem
      = decodeFolder (JObject ([(''name'', JString ''bar'')] @
          [(''children'', JArray [item_json ex_C])])) zeroFolderMem"
    using T [where k = "''guid''", THEN conjunct2, THEN conjunct2, THEN conjunct2, THEN conjunct2, THEN conjunct2, THEN conjunct2, THEN conjunct1] by blast
  also have "\<dots> = Inr (zeroFolderMem\<lparr>Children_fm := [mem_of ex_C], Name_fm := ''bar''\<rparr>)"
    by code_simp
  finally have u3: "decodeFolder (JObject ([(''name'', JString ''bar'')] @
          (''guid'', JString ''g'') # [(''children'', JArray [item_json ex_C])])) zeroFolderMem
      = Inr (zeroFolderMem\<lparr>Children_fm := [mem_of ex_C], Name_fm := ''bar''\<rparr>)" .
  have "\<not> list_ex (is_field ''meta_info'') (''children'' # item_string_fields)"
    by (simp add: is_field_def upper_def item_string_fields_def)
  then have "decodeItem
        (JObject ([(''name'', JString ''A'')] @ (''meta_info'', JNumber FracLit) # [])) zeroItem
      = decodeItem (JObject ([(''name'', JString ''A'')] @ [])) zeroItem"
    using T [where k = "''meta_info''", THEN conjunct2, THEN conjunct2, THEN conjunct2, THEN conjunct2, THEN conjunct2, THEN conjunct2, THEN conjunct2, THEN conjunct1] by blast
  also have "\<dots> = Inr (ItemMem [] [] ''A'' [] [] [] [])"
    by code_simp
  finally have u4: "decodeItem
        (JObject ([(''name'', JString ''A'')] @ (''meta_info'', JNumber FracLit) # [])) zeroItem
      = Inr (ItemMem [] [] ''A'' [] [] [] [])" .
  have v: "json_Unmarshal (Some (JObject [(''version'', JNumber (IntLit 7))]))
      = Inr (zeroBookmarks\<lparr>Version := 7\<rparr>)"
    by code_simp
  have m: "\<not> mentions ''roots'' [(''version'', JNumber (IntLit 7))]"
    "\<not> mentions ''checksum'' [(''version'', JNumber (IntLit 7))]"
    by (simp_all add: mentions_def is_field_def upper_def)
  have f1: "\<exists>b. json_Unmarshal (Some (JObject [(''version'', JNumber (IntLit 7))])) = Inr b
         \<and> Version b = 7 \<and> Roots b = Roots zeroBookmarks \<and> Checksum b = []"
    using T [where kvs = "[(''version'', JNumber (IntLit 7))]"
        and b' = "zeroBookmarks\<lparr>Version := 7\<rparr>", THEN conjunct2, THEN conjunct2, THEN conjunct2, THEN conjunct2, THEN conjunct2, THEN conjunct2, THEN conjunct2, THEN conjunct2, THEN conjunct1] v m
    by simp
  have t: "decodeItem (JObject [(''type'', JString ''url'')]) zeroItem
      = Inr (ItemMem [] [] [] ''url'' [] [] [])"
    by code_simp
  have mi: "\<not> mentions ''name'' [(''type'', JString ''url'')]"
    "\<not> mentions ''url'' [(''type'', JString ''url'')]"
    "\<not> mentions ''children'' [(''type'', JString ''url'')]"
    by (simp_all add: mentions_def is_field_def upper_def)
  have f2: "\<exists>x. decodeItem (JObject [(''type'', JString ''url'')]) zeroItem = Inr x
         \<and> Type_m x = ''url'' \<and> Name_m x = [] \<and> URL_m x = [] \<and> Children_m x = []"
    using T [where kvs = "[(''type'', JString ''url'')]" and cur = zeroItem
        and x = "ItemMem [] [] [] ''url'' [] [] []", THEN conjunct2, THEN conjunct2, THEN conjunct2, THEN conjunct2, THEN conjunct2, THEN conjunct2, THEN conjunct2, THEN conjunct2, THEN conjunct2, THEN conjunct2, THEN conjunct2, THEN conjunct1] t mi
    by (simp add: zeroItem_def)
  have dr: "decodeRoots (JObject [(''other'', JObject [(''name'', JString ''o'')])])
      (Roots_m zeroBookmarksMem)
      = Inr ((Roots_m zeroBookmarksMem)\<lparr>Other_m := zeroFolderMem\<lparr>Name_fm := ''o''\<rparr>\<rparr>)"
    by code_simp
  have mr: "\<not> mentions ''bookmark_bar'' [(''other'', JObject [(''name'', JString ''o'')])]"
    "\<not> mentions ''synced'' [(''other'', JObject [(''name'', JString ''o'')])]"
    by (simp_all add: mentions_def is_field_def upper_def)
  have f3: "\<exists>r. decodeRoots (JObject [(''other'', JObject [(''name'', JString ''o'')])])
           (Roots_m zeroBookmarksMem) = Inr r
         \<and> Other_m r = zeroFolderMem\<lparr>Name_fm := ''o''\<rparr>
         \<and> BookmarkBar_m r = zeroFolderMem \<and> Synced_m r = zeroFolderMem"
    using T [where kvs = "[(''other'', JObject [(''name'', JString ''o'')])]"
        and rcur = "Roots_m zeroBookmarksMem"
        and r = "(Roots_m zeroBookmarksMem)\<lparr>Other_m := zeroFolderMem\<lparr>Name_fm := ''o''\<rparr>\<rparr>", THEN conjunct2, THEN conjunct2, THEN conjunct2, THEN conjunct2, THEN conjunct2, THEN conjunct2, THEN conjunct2, THEN conjunct2, THEN conjunct2, THEN conjunct1] dr mr
    by (simp add: zeroBookmarksMem_def)
  have df: "decodeFolder (JObject [(''name'', JString ''bar'')])
      (zeroFolderMem\<lparr>Type_fm := ''folder''\<rparr>)
      = Inr (zeroFolderMem\<lparr>Name_fm := ''bar'', Type_fm := ''folder''\<rparr>)"
    by code_simp
  have mf: "\<not> mentions ''type'' [(''name'', JString ''bar'')]"
    "\<not> mentions ''children'' [(''name'', JString ''bar'')]"
    by (simp_all add: mentions_def is_field_def upper_def)
  have f4: "\<exists>f. decodeFolder (JObject [(''name'', JString ''bar'')])
           (zeroFolderMem\<lparr>Type_fm := ''folder''\<rparr>) = Inr f
         \<and> Name_fm f = ''bar'' \<and> Type_fm f = ''folder'' \<and> Children_fm f = []"
    using T [where kvs = "[(''name'', JString ''bar'')]"
        and fcur = "zeroFolderMem\<lparr>Type_fm := ''folder''\<rparr>"
        and f = "zeroFolderMem\<lparr>Name_fm := ''bar'', Type_fm := ''folder''\<rparr>", THEN conjunct2, THEN conjunct2, THEN conjunct2, THEN conjunct2, THEN conjunct2, THEN conjunct2, THEN conjunct2, THEN conjunct2, THEN conjunct2, THEN conjunct2, THEN conjunct1] df mf
    by (simp add: zeroFolderMem_def)
  have de: "decodeElems [JObject [(''name'', JString ''A'')], JNull] []
       = Inr [ItemMem [] [] ''A'' [] [] [] [], zeroItem]"
    by code_simp
  then have el: "decodeItem (JObject [(''name'', JString ''A'')]) zeroItem
        = Inr (ItemMem [] [] ''A'' [] [] [] [])
      \<and> decodeItem JNull zeroItem = Inr zeroItem"
    using T [where js = "[JObject [(''name'', JString ''A'')], JNull]"
        and ms = "[ItemMem [] [] ''A'' [] [] [] [], zeroItem]", THEN conjunct2, THEN conjunct2, THEN conjunct2, THEN conjunct2, THEN conjunct2, THEN conjunct2, THEN conjunct2, THEN conjunct2, THEN conjunct2, THEN conjunct2, THEN conjunct2, THEN conjunct2]
    by simp
  from r a ex_world_parse n e s u1 u2 u3 u4 f1 f2 f3 f4 de el show ?thesis
    by (intro conjI) simp_all
qed

text \<open>
  The wording of the specification, that a missing field is an error, fails on the
  empty object and on a node that has nothing but its type: no field of the expected
  shape is there, and both are decoded without error; the node then is extracted as a
  bookmark with an empty name and an empty url.
\<close>

theorem parseBookmarks_accepts_missing_fields:
  "\<not> list_ex (\<lambda>(k, v). is_field k ''roots'') []
   \<and> json_Unmarshal (Some (JObject [])) = Inr zeroBookmarks
   \<and> parseBookmarks (ex_world\<lparr>files := [ex_path \<mapsto> Plain (Some (JObject []))]\<rparr>) ex_path
       = Inr zeroBookmarks
   \<and> \<not> list_ex (\<lambda>(k, v). is_field k ''url'' \<or> is_field k ''name'') [(''type'', JString ''url'')]
   \<and> json_Unmarshal (Some (JObject [(''roots'', JObject [(''other'',
         JObject [(''children'', JArray [JObject [(''type'', JString ''url'')]])])])]))
      = Inr (zeroBookmarks\<lparr>Roots := (Roots zeroBookmarks)
           \<lparr>Other := zeroFolder\<lparr>Children_f := [BookmarkItem [] [] [] ''url'' [] []]\<rparr>\<rparr>\<rparr>)
   \<and> extractBookmarks [BookmarkItem [] [] [] ''url'' [] []]
      = [BookmarkItem [] [] [] ''url'' [] []]"
  by code_simp

end
